theory Spec2Isabelle
  imports Complex_Main
begin

section \<open>Python values\<close>

text \<open>
  The values that \<^verbatim>\<open>resp.json()\<close> can produce and that the client passes around:
  \<^verbatim>\<open>None\<close>, booleans, integers, floats, strings, lists and dictionaries. A dictionary
  is an association list in insertion order; a lookup takes the entry of the key.
  Floats are modelled as exact reals (rounding and overflow are not modelled).
\<close>

datatype json =
    JNull
  | JBool bool
  | JInt int
  | JFloat real
  | JStr string
  | JArr "json list"
  | JObj "(string \<times> json) list"

text \<open>Python's truth value of an object, as \<^verbatim>\<open>not x\<close> and \<^verbatim>\<open>x or y\<close> use it.\<close>

fun truthy :: "json \<Rightarrow> bool" where
  "truthy JNull = False"
| "truthy (JBool b) = b"
| "truthy (JInt i) = (i \<noteq> 0)"
| "truthy (JFloat x) = (x \<noteq> 0)"
| "truthy (JStr s) = (s \<noteq> [])"
| "truthy (JArr xs) = (xs \<noteq> [])"
| "truthy (JObj kvs) = (kvs \<noteq> [])"

definition py_or :: "json \<Rightarrow> json \<Rightarrow> json" where
  "py_or a b = (if truthy a then a else b)"

fun type_name :: "json \<Rightarrow> string" where
  "type_name JNull = ''NoneType''"
| "type_name (JBool b) = ''bool''"
| "type_name (JInt i) = ''int''"
| "type_name (JFloat x) = ''float''"
| "type_name (JStr s) = ''str''"
| "type_name (JArr xs) = ''list''"
| "type_name (JObj kvs) = ''dict''"

text \<open>\<^verbatim>\<open>str(n)\<close> of an integer: its decimal digits, with a sign when negative.\<close>

definition digit_char :: "nat \<Rightarrow> char" where
  "digit_char d = ''0123456789'' ! (d mod 10)"

fun str_nat :: "nat \<Rightarrow> string" where
  "str_nat n = (if n < 10 then [digit_char n] else str_nat (n div 10) @ [digit_char (n mod 10)])"

definition str_int :: "int \<Rightarrow> string" where
  "str_int i = (if i < 0 then CHR ''-'' # str_nat (nat (- i)) else str_nat (nat i))"

text \<open>\<^verbatim>\<open>range(n)\<close>: the integers from 0 up to \<open>n - 1\<close>; empty when \<open>n \<le> 0\<close>.\<close>

definition py_range :: "int \<Rightarrow> int list" where
  "py_range n = map int [0..<nat n]"

text \<open>\<^verbatim>\<open>s.rstrip(chars)\<close>: every trailing character that occurs in \<open>chars\<close> is removed.\<close>

definition rstrip :: "string \<Rightarrow> string \<Rightarrow> string" where
  "rstrip s chars = rev (dropWhile (\<lambda>c. c \<in> set chars) (rev s))"

section \<open>Exceptions\<close>

text \<open>
  The four classes of \<^verbatim>\<open>client.py\<close> and the classes of Python and of the \<^verbatim>\<open>requests\<close>
  library that \<^verbatim>\<open>execute_tool\<close> raises, catches or lets through.
\<close>

datatype exc_class =
    BaseException
  | Exception
  | OSError
  | ValueError
  | AttributeError
  | ArithmeticError
  | OverflowError
  | RequestException
  | ConnectionError
  | Timeout
  | InvalidJSONError
  | JSONDecodeError
  | DatagenError
  | DatagenAuthError
  | DatagenToolError
  | DatagenHttpError

text \<open>The base classes written in each class statement.\<close>

fun bases :: "exc_class \<Rightarrow> exc_class list" where
  "bases BaseException = []"
| "bases Exception = [BaseException]"
| "bases OSError = [Exception]"
| "bases ValueError = [Exception]"
| "bases AttributeError = [Exception]"
| "bases ArithmeticError = [Exception]"
| "bases OverflowError = [ArithmeticError]"
| "bases RequestException = [OSError]"
| "bases ConnectionError = [RequestException]"
| "bases Timeout = [RequestException]"
| "bases InvalidJSONError = [RequestException]"
| "bases JSONDecodeError = [InvalidJSONError, ValueError]"
| "bases DatagenError = [Exception]"
| "bases DatagenAuthError = [DatagenError]"
| "bases DatagenToolError = [DatagenError]"
| "bases DatagenHttpError = [DatagenError]"

text \<open>
  \<^verbatim>\<open>issubclass(c, d)\<close>: \<open>d\<close> is reached from \<open>c\<close> along base classes. No chain of
  base classes above is longer than five, so five rounds reach every ancestor.
\<close>

fun subclass_within :: "nat \<Rightarrow> exc_class \<Rightarrow> exc_class \<Rightarrow> bool" where
  "subclass_within 0 c d = (c = d)"
| "subclass_within (Suc n) c d = (c = d \<or> list_ex (\<lambda>b. subclass_within n b d) (bases c))"

definition issubclass :: "exc_class \<Rightarrow> exc_class \<Rightarrow> bool" where
  "issubclass c d = subclass_within 5 c d"

text \<open>An exception object: its class and its first argument (the message).\<close>

datatype exc = Exc (class_of: exc_class) (arg: json)

section \<open>The HTTP transport and the process state\<close>

record request =
  req_url :: string
  req_json :: json
  req_headers :: "(string \<times> string) list"
  req_timeout :: int

text \<open>
  A response of \<^verbatim>\<open>requests.post\<close>: \<open>json_body\<close> is what the body parses to, \<open>None\<close>
  when the body is not JSON.
\<close>

record response =
  status_code :: int
  resp_text :: string
  json_body :: "json option"

text \<open>
  \<^verbatim>\<open>resp.json()\<close>: a body that is not JSON raises \<^verbatim>\<open>requests.exceptions.JSONDecodeError\<close>,
  a subclass of \<^verbatim>\<open>RequestException\<close> and of \<^verbatim>\<open>ValueError\<close> (as of requests 2.27).
\<close>

definition resp_json :: "response \<Rightarrow> exc + json" where
  "resp_json resp =
     (case json_body resp of
        None \<Rightarrow> Inl (Exc JSONDecodeError (JStr ''Expecting value''))
      | Some v \<Rightarrow> Inr v)"

text \<open>\<^verbatim>\<open>d.get(key, default)\<close>; only a dictionary has the method.\<close>

definition dict_get :: "json \<Rightarrow> string \<Rightarrow> json \<Rightarrow> exc + json" where
  "dict_get d key dflt =
     (case d of
        JObj kvs \<Rightarrow> Inr (case map_of kvs key of None \<Rightarrow> dflt | Some v \<Rightarrow> v)
      | _ \<Rightarrow> Inl (Exc AttributeError
                 (JStr ([CHR 0x27] @ type_name d @ [CHR 0x27] @ '' object has no attribute ''
                        @ [CHR 0x27] @ ''get'' @ [CHR 0x27]))))"

text \<open>The client object: the five attributes that \<^verbatim>\<open>__init__\<close> assigns.\<close>

record client =
  api_key :: string
  base_url :: string
  timeout :: int
  retries :: int
  backoff_seconds :: real

text \<open>
  What a call can observe and change: the client object \<open>self\<close>, and the trace of
  the effects so far, each POST request and each sleep in order.
\<close>

datatype event = Post request | Sleep real

record state =
  self :: client
  trace :: "event list"

text \<open>
  The surroundings of the client: \<open>requests_post\<close> answers a request, given the effects
  so far, with a response or with the exception it raises; \<open>py_str\<close> is Python's
  formatting of a parsed payload inside an f-string; \<open>sleep_max\<close> is the longest
  duration in seconds that \<^verbatim>\<open>time.sleep\<close> of the platform can represent (about
  \<open>2 ^ 63\<close> nanoseconds on CPython, far below the largest float).
\<close>

record runtime =
  requests_post :: "event list \<Rightarrow> request \<Rightarrow> exc + response"
  py_str :: "json \<Rightarrow> string"
  sleep_max :: real

text \<open>The largest finite float, \<open>(2 - 2 ^ -52) * 2 ^ 1023\<close>.\<close>

definition float_max :: real where
  "float_max = 2 ^ 1024 - 2 ^ 971"

text \<open>
  \<^verbatim>\<open>time.sleep(d)\<close> first converts the duration to its clock and raises \<^verbatim>\<open>OverflowError\<close>
  when it is out of range, as an infinity always is; then it raises \<^verbatim>\<open>ValueError\<close> on a
  negative duration. A real beyond \<open>float_max\<close> stands for the infinity that the
  product of the floats is then.
\<close>

definition time_sleep :: "runtime \<Rightarrow> real \<Rightarrow> state \<Rightarrow> exc + state" where
  "time_sleep rt d s =
     (if sleep_max rt < \<bar>d\<bar> \<or> float_max < \<bar>d\<bar>
      then Inl (Exc OverflowError (JStr ''timestamp too large to convert to C _PyTime_t''))
      else if d < 0 then Inl (Exc ValueError (JStr ''sleep length must be non-negative''))
      else Inr (s\<lparr>trace := trace s @ [Sleep d]\<rparr>))"

text \<open>
  The argument of the sleep, \<^verbatim>\<open>self.backoff_seconds * (2 ** attempt)\<close>: the power is an
  integer of Python, and its conversion to a float for the product raises
  \<^verbatim>\<open>OverflowError\<close> from \<open>2 ^ 1024\<close> on. Below that the product of a finite float with a
  power of two is exact as long as it is in the range of the floats; a product beyond
  that range is an infinity and raises nothing here, but \<^verbatim>\<open>time.sleep\<close> refuses it. The
  backoff is a finite float, given as the real it denotes.
\<close>

definition backoff_delay :: "real \<Rightarrow> int \<Rightarrow> exc + real" where
  "backoff_delay b attempt =
     (if 1024 \<le> attempt then Inl (Exc OverflowError (JStr ''int too large to convert to float''))
      else Inr (b * 2 ^ nat attempt))"

section \<open>DatagenClient\<close>

subsection \<open>Construction\<close>

text \<open>
  \<^verbatim>\<open>__init__\<close>, with \<open>os_getenv\<close> the process environment. The defaults of the source
  are \<^verbatim>\<open>api_key=None\<close>, \<^verbatim>\<open>base_url="http://localhost:3001"\<close>, \<^verbatim>\<open>timeout=30\<close>,
  \<^verbatim>\<open>retries=0\<close>, \<^verbatim>\<open>backoff_seconds=0.5\<close>.
\<close>

definition resolve_api_key :: "(string \<Rightarrow> string option) \<Rightarrow> string option \<Rightarrow> string option" where
  "resolve_api_key os_getenv key =
     (case key of
        None \<Rightarrow> os_getenv ''DATAGEN_API_KEY''
      | Some k \<Rightarrow> if k \<noteq> [] then Some k else os_getenv ''DATAGEN_API_KEY'')"

definition init :: "(string \<Rightarrow> string option) \<Rightarrow> string option \<Rightarrow> string \<Rightarrow> int \<Rightarrow> int \<Rightarrow> real \<Rightarrow> exc + client" where
  "init os_getenv key url tmo rtr backoff =
     (case resolve_api_key os_getenv key of
        None \<Rightarrow> Inl (Exc DatagenAuthError (JStr ''API key missing. Set DATAGEN_API_KEY or pass api_key.''))
      | Some k \<Rightarrow>
          if k = [] then Inl (Exc DatagenAuthError (JStr ''API key missing. Set DATAGEN_API_KEY or pass api_key.''))
          else Inr \<lparr>api_key = k, base_url = rstrip url ''/'', timeout = tmo, retries = rtr,
                    backoff_seconds = backoff\<rparr>)"

subsection \<open>execute_tool\<close>

text \<open>Lines 59 to 72: the classification of one response.\<close>

definition classify :: "runtime \<Rightarrow> response \<Rightarrow> exc + json" where
  "classify rt resp =
     (if status_code resp = 401 \<or> status_code resp = 403
      then Inl (Exc DatagenAuthError (JStr (''Auth failed: '' @ resp_text resp)))
      else if status_code resp \<ge> 400
      then Inl (Exc DatagenHttpError
                 (JStr (''HTTP '' @ str_int (status_code resp) @ '': '' @ resp_text resp)))
      else
        case resp_json resp of
          Inl e \<Rightarrow> Inl e
        | Inr payload \<Rightarrow>
            (case dict_get payload ''success'' (JBool False) of
               Inl e \<Rightarrow> Inl e
             | Inr ok \<Rightarrow>
                 if \<not> truthy ok
                 then Inl (Exc DatagenHttpError
                            (JStr (''Unexpected response: '' @ py_str rt payload)))
                 else
                   (case dict_get payload ''data'' (JObj []) of
                      Inl e \<Rightarrow> Inl e
                    | Inr tool_payload \<Rightarrow>
                        (case dict_get tool_payload ''success'' (JBool False) of
                           Inl e \<Rightarrow> Inl e
                         | Inr tool_ok \<Rightarrow>
                             if \<not> truthy tool_ok
                             then
                               (case dict_get tool_payload ''error'' JNull of
                                  Inl e \<Rightarrow> Inl e
                                | Inr err \<Rightarrow>
                                    Inl (Exc DatagenToolError
                                          (py_or err (JStr ''Tool reported failure''))))
                             else dict_get tool_payload ''result'' JNull))))"

text \<open>The body of the \<^verbatim>\<open>try\<close>: the request is sent and recorded, the answer classified.\<close>

definition mk_request :: "string \<Rightarrow> json \<Rightarrow> (string \<times> string) list \<Rightarrow> state \<Rightarrow> request" where
  "mk_request url body headers s =
     \<lparr>req_url = url, req_json = body, req_headers = headers, req_timeout = timeout (self s)\<rparr>"

definition try_body :: "runtime \<Rightarrow> string \<Rightarrow> json \<Rightarrow> (string \<times> string) list \<Rightarrow> state \<Rightarrow> (exc + json) \<times> state" where
  "try_body rt url body headers s =
     (let req = mk_request url body headers s;
          s1 = s\<lparr>trace := trace s @ [Post req]\<rparr>
      in case requests_post rt (trace s) req of
           Inl e \<Rightarrow> (Inl e, s1)
         | Inr resp \<Rightarrow> (classify rt resp, s1))"

text \<open>The clause \<^verbatim>\<open>except (requests.RequestException, DatagenHttpError)\<close>.\<close>

definition caught :: "exc \<Rightarrow> bool" where
  "caught e = (issubclass (class_of e) RequestException \<or> issubclass (class_of e) DatagenHttpError)"

text \<open>
  The \<^verbatim>\<open>for\<close> loop over the attempts that are left. An iteration leaves the function
  by \<^verbatim>\<open>return\<close> or \<^verbatim>\<open>raise\<close> (\<open>Exited\<close>), or goes on to the next attempt after a
  sleep; when no attempt is left the loop is \<open>Completed\<close> and hands \<open>last_exc\<close>, the
  variable of the source, to the code after it. An exception of the product or of
  \<^verbatim>\<open>time.sleep\<close> is raised inside the handler and leaves the function.
\<close>

datatype loop_result = Completed "exc option" | Exited "exc + json"

fun retry_loop :: "runtime \<Rightarrow> string \<Rightarrow> json \<Rightarrow> (string \<times> string) list \<Rightarrow> int list \<Rightarrow> exc option \<Rightarrow> state \<Rightarrow> loop_result \<times> state" where
  "retry_loop rt url body headers [] last_exc s = (Completed last_exc, s)"
| "retry_loop rt url body headers (attempt # rest) last_exc s =
     (case try_body rt url body headers s of
        (Inr v, s1) \<Rightarrow> (Exited (Inr v), s1)
      | (Inl e, s1) \<Rightarrow>
          if caught e then
            if attempt < retries (self s1) then
              (case backoff_delay (backoff_seconds (self s1)) attempt of
                 Inl e' \<Rightarrow> (Exited (Inl e'), s1)
               | Inr d \<Rightarrow>
                   (case time_sleep rt d s1 of
                      Inl e' \<Rightarrow> (Exited (Inl e'), s1)
                    | Inr s2 \<Rightarrow> retry_loop rt url body headers rest (Some e) s2))
            else (Exited (Inl e), s1)
          else (Exited (Inl e), s1))"

text \<open>Lines 79 to 81, the code after the loop.\<close>

definition after_loop :: "exc option \<Rightarrow> exc + json" where
  "after_loop last_exc =
     (case last_exc of
        Some e \<Rightarrow> Inl e
      | None \<Rightarrow> Inl (Exc DatagenError (JStr ''Unknown error during tool execution'')))"

definition execute_tool :: "runtime \<Rightarrow> string \<Rightarrow> (string \<times> json) list option \<Rightarrow> state \<Rightarrow> (exc + json) \<times> state" where
  "execute_tool rt tool_alias_name parameters s =
     (if tool_alias_name = [] then (Inl (Exc ValueError (JStr ''tool_alias_name is required'')), s)
      else
        let body = JObj [(''tool_alias_name'', JStr tool_alias_name),
                         (''parameters'', py_or (case parameters of None \<Rightarrow> JNull | Some p \<Rightarrow> JObj p) (JObj []))];
            url = base_url (self s) @ ''/api/tools/execute'';
            headers = [(''X-API-Key'', api_key (self s)), (''Content-Type'', ''application/json'')]
        in case retry_loop rt url body headers (py_range (retries (self s) + 1)) None s of
             (Exited r, s') \<Rightarrow> (r, s')
           | (Completed last_exc, s') \<Rightarrow> (after_loop last_exc, s'))"

text \<open>The number of requests in a trace.\<close>

fun count_posts :: "event list \<Rightarrow> nat" where
  "count_posts [] = 0"
| "count_posts (Post r # es) = Suc (count_posts es)"
| "count_posts (Sleep d # es) = count_posts es"

text \<open>The durations slept in a trace, in order.\<close>

fun sleeps :: "event list \<Rightarrow> real list" where
  "sleeps [] = []"
| "sleeps (Post r # es) = sleeps es"
| "sleeps (Sleep d # es) = d # sleeps es"

text \<open>The two-level envelopes of the wire contract.\<close>

definition success_envelope :: "json \<Rightarrow> json" where
  "success_envelope r =
     JObj [(''success'', JBool True),
           (''data'', JObj [(''success'', JBool True), (''result'', r)])]"

definition tool_failure_envelope :: "string \<Rightarrow> json" where
  "tool_failure_envelope x =
     JObj [(''success'', JBool True),
           (''data'', JObj [(''success'', JBool False), (''error'', JStr x)])]"

section \<open>Notions for stating the properties\<close>

text \<open>The request that \<^verbatim>\<open>execute_tool\<close> sends: its URL, JSON body, headers and timeout.\<close>

definition tool_request :: "string \<Rightarrow> (string \<times> json) list option \<Rightarrow> state \<Rightarrow> request" where
  "tool_request tool_alias_name parameters s =
     \<lparr>req_url = base_url (self s) @ ''/api/tools/execute'',
      req_json = JObj [(''tool_alias_name'', JStr tool_alias_name),
                       (''parameters'', py_or (case parameters of None \<Rightarrow> JNull | Some p \<Rightarrow> JObj p) (JObj []))],
      req_headers = [(''X-API-Key'', api_key (self s)), (''Content-Type'', ''application/json'')],
      req_timeout = timeout (self s)\<rparr>"

text \<open>
  The effects of the attempts \<open>i\<close> up to \<open>k - 1\<close> when each of them is retried: the
  request, then the sleep of \<open>b * 2 ^ j\<close> after attempt \<open>j\<close>.
\<close>

definition retry_events :: "request \<Rightarrow> real \<Rightarrow> nat \<Rightarrow> nat \<Rightarrow> event list" where
  "retry_events req b i k = concat (map (\<lambda>j. [Post req, Sleep (b * 2 ^ j)]) [i..<k])"

text \<open>What one attempt yields when the effects so far are \<open>h\<close>.\<close>

definition outcome_at :: "runtime \<Rightarrow> request \<Rightarrow> event list \<Rightarrow> exc + json" where
  "outcome_at rt req h =
     (case requests_post rt h req of Inl e \<Rightarrow> Inl e | Inr resp \<Rightarrow> classify rt resp)"

text \<open>The attempt fails with an exception that the \<^verbatim>\<open>except\<close> clause catches.\<close>

definition retried :: "runtime \<Rightarrow> request \<Rightarrow> event list \<Rightarrow> bool" where
  "retried rt req h = (case outcome_at rt req h of Inl e \<Rightarrow> caught e | Inr v \<Rightarrow> False)"

text \<open>
  An HTTP-level failure, said of the backend alone: the transport raises an exception of
  the \<^verbatim>\<open>requests\<close> library (or \<^verbatim>\<open>DatagenHttpError\<close> itself), or it answers with a status
  of 400 or more other than 401 and 403, or with a body that is not JSON, or with a JSON
  object whose \<^verbatim>\<open>success\<close> is missing or false.
\<close>

definition http_level_failure :: "runtime \<Rightarrow> request \<Rightarrow> event list \<Rightarrow> bool" where
  "http_level_failure rt req h =
     (case requests_post rt h req of
        Inl e \<Rightarrow>
          class_of e \<in> {RequestException, ConnectionError, Timeout, InvalidJSONError,
                         JSONDecodeError, DatagenHttpError}
      | Inr resp \<Rightarrow>
          status_code resp \<noteq> 401 \<and> status_code resp \<noteq> 403 \<and>
          (400 \<le> status_code resp \<or>
           (case json_body resp of
              None \<Rightarrow> True
            | Some payload \<Rightarrow>
                (case payload of
                   JObj kvs \<Rightarrow>
                     (case map_of kvs ''success'' of None \<Rightarrow> True | Some ok \<Rightarrow> \<not> truthy ok)
                 | _ \<Rightarrow> False))))"

text \<open>
  The delay after attempt \<open>i\<close> is one that Python accepts: the power converts to a
  float, and the product is a finite duration, not negative, that \<^verbatim>\<open>time.sleep\<close> takes. \<open>delays_accepted\<close> says
  so of the delays after the attempts \<open>0\<close> up to \<open>n - 1\<close>.
\<close>

definition delay_accepted :: "runtime \<Rightarrow> real \<Rightarrow> nat \<Rightarrow> bool" where
  "delay_accepted rt b i =
     (i < 1024 \<and> 0 \<le> b * 2 ^ i \<and> b * 2 ^ i \<le> sleep_max rt \<and> b * 2 ^ i \<le> float_max)"

definition delays_accepted :: "runtime \<Rightarrow> real \<Rightarrow> nat \<Rightarrow> bool" where
  "delays_accepted rt b n = list_all (delay_accepted rt b) [0..<n]"

text \<open>
  A response that follows the wire contract: a status of 400 or more with any body, or a
  JSON object whose \<^verbatim>\<open>data\<close>, when present, is a JSON object.
\<close>

fun is_dict :: "json \<Rightarrow> bool" where
  "is_dict (JObj kvs) = True"
| "is_dict v = False"

definition envelope_shaped :: "response \<Rightarrow> bool" where
  "envelope_shaped resp =
     (400 \<le> status_code resp \<or>
      (case json_body resp of
         None \<Rightarrow> False
       | Some payload \<Rightarrow>
           (case payload of
              JObj kvs \<Rightarrow> (case map_of kvs ''data'' of None \<Rightarrow> True | Some d \<Rightarrow> is_dict d)
            | _ \<Rightarrow> False)))"

text \<open>
  Backends for concrete runs, as the mocked responses of \<^verbatim>\<open>tests/test_client.py\<close>:
  one that answers every request with the same response, and one that answers the
  \<open>n\<close>-th request with the \<open>n\<close>-th entry of a script and refuses the connection
  once the script is used up. Both sleep on a clock of \<open>2 ^ 63\<close> nanoseconds.
\<close>

definition mock_always :: "response \<Rightarrow> runtime" where
  "mock_always resp =
     \<lparr>requests_post = (\<lambda>h r. Inr resp), py_str = (\<lambda>v. ''<payload>''),
      sleep_max = 9223372036\<rparr>"

definition mock_script :: "(exc + response) list \<Rightarrow> runtime" where
  "mock_script script =
     \<lparr>requests_post = (\<lambda>h r. if count_posts h < length script then script ! count_posts h
                              else Inl (Exc ConnectionError (JStr ''Connection refused''))),
      py_str = (\<lambda>v. ''<payload>''), sleep_max = 9223372036\<rparr>"

definition test_client :: "int \<Rightarrow> real \<Rightarrow> client" where
  "test_client n b =
     \<lparr>api_key = ''test_key'', base_url = ''http://localhost:3001'', timeout = 30, retries = n,
      backoff_seconds = b\<rparr>"

definition fresh :: "client \<Rightarrow> state" where
  "fresh c = \<lparr>self = c, trace = []\<rparr>"

definition server_error :: response where
  "server_error = \<lparr>status_code = 500, resp_text = ''Server Error'', json_body = None\<rparr>"

definition json_response :: "json \<Rightarrow> response" where
  "json_response payload = \<lparr>status_code = 200, resp_text = [], json_body = Some payload\<rparr>"

section \<open>Auxiliary facts\<close>

lemma retry_events_empty [simp]: "retry_events req b i i = []"
  by (simp add: retry_events_def)

lemma retry_events_first: "i < k \<Longrightarrow>
  retry_events req b i k = Post req # Sleep (b * 2 ^ i) # retry_events req b (Suc i) k"
  by (simp add: retry_events_def upt_conv_Cons)

lemma count_posts_append [simp]: "count_posts (xs @ ys) = count_posts xs + count_posts ys"
  by (induction xs rule: count_posts.induct) simp_all

lemma sleeps_append [simp]: "sleeps (xs @ ys) = sleeps xs @ sleeps ys"
  by (induction xs rule: sleeps.induct) simp_all

lemma count_posts_retry_events [simp]: "count_posts (retry_events req b i k) = k - i"
proof (induction "k - i" arbitrary: i)
  case 0
  then show ?case by (simp add: retry_events_def)
next
  case (Suc d)
  then have "i < k" by simp
  with Suc show ?case by (simp add: retry_events_first)
qed

lemma sleeps_retry_events [simp]:
  "sleeps (retry_events req b i k) = map (\<lambda>j. b * 2 ^ j) [i..<k]"
proof (induction "k - i" arbitrary: i)
  case 0
  then show ?case by (simp add: retry_events_def)
next
  case (Suc d)
  then have "i < k" by simp
  with Suc show ?case by (simp add: retry_events_first upt_conv_Cons)
qed

lemma try_body_eq:
  "try_body rt url body headers s =
     (outcome_at rt (mk_request url body headers s) (trace s),
      s\<lparr>trace := trace s @ [Post (mk_request url body headers s)]\<rparr>)"
  by (simp add: try_body_def outcome_at_def Let_def split: sum.splits)

lemma mk_request_trace [simp]:
  "mk_request url body headers (s\<lparr>trace := t\<rparr>) = mk_request url body headers s"
  by (simp add: mk_request_def)

lemma delay_accepted_sleep:
  assumes "delay_accepted rt b i"
  shows "backoff_delay b (int i) = Inr (b * 2 ^ i)"
    and "time_sleep rt (b * 2 ^ i) s = Inr (s\<lparr>trace := trace s @ [Sleep (b * 2 ^ i)]\<rparr>)"
  using assms by (simp_all add: delay_accepted_def backoff_delay_def time_sleep_def)

lemma delays_accepted_iff: "delays_accepted rt b n = (\<forall>i. i < n \<longrightarrow> delay_accepted rt b i)"
  by (auto simp: delays_accepted_def list_all_iff)

lemma retry_loop_self: "self (snd (retry_loop rt url body headers as prev s)) = self s"
proof (induction as arbitrary: prev s)
  case Nil
  then show ?case by simp
next
  case (Cons a as)
  show ?case
    by (simp add: try_body_eq time_sleep_def backoff_delay_def Cons.IH split: sum.splits)
qed

lemma retry_loop_exits:
  assumes "retries (self s) = int n" and "i \<le> n"
  shows "\<exists>r. fst (retry_loop rt url body headers (map int [i..<Suc n]) prev s) = Exited r"
  using assms
proof (induction "n - i" arbitrary: i s prev)
  case 0
  then have "i = n" by simp
  with "0.prems" show ?case
    by (simp add: try_body_eq split: sum.splits)
next
  case (Suc d)
  then have lt: "i < n" by simp
  then have upt: "[i..<Suc n] = i # [Suc i..<Suc n]" by (simp add: upt_conv_Cons)
  have IH: "\<And>prev s'. self s' = self s \<Longrightarrow>
      \<exists>r. fst (retry_loop rt url body headers (map int [Suc i..<Suc n]) prev s') = Exited r"
    using Suc.hyps(1)[of "Suc i"] Suc.hyps(2) Suc.prems lt by (simp del: upt_Suc)
  show ?case
    unfolding upt
    by (simp add: try_body_eq time_sleep_def backoff_delay_def IH del: upt_Suc split: sum.splits)
qed

lemma retry_loop_trace:
  assumes "retries (self s) = int n" and "i \<le> n"
  shows "\<exists>k. i \<le> k \<and> k \<le> n
     \<and> (\<forall>j. i \<le> j \<and> j < k \<longrightarrow>
           retried rt (mk_request url body headers s)
             (trace s @ retry_events (mk_request url body headers s) (backoff_seconds (self s)) i j))
     \<and> snd (retry_loop rt url body headers (map int [i..<Suc n]) prev s) =
          s\<lparr>trace := trace s @ retry_events (mk_request url body headers s) (backoff_seconds (self s)) i k
                 @ [Post (mk_request url body headers s)]\<rparr>"
  using assms
proof (induction "n - i" arbitrary: i s prev)
  case 0
  then have "i = n" by simp
  with "0.prems" show ?case
    by (intro exI[of _ n]) (auto simp: try_body_eq split: sum.splits)
next
  case (Suc d)
  let ?req = "mk_request url body headers s"
  let ?b = "backoff_seconds (self s)"
  let ?s1 = "s\<lparr>trace := trace s @ [Post ?req]\<rparr>"
  let ?s2 = "s\<lparr>trace := trace s @ [Post ?req, Sleep (?b * 2 ^ i)]\<rparr>"
  from Suc have lt: "i < n" by simp
  then have upt: "[i..<Suc n] = i # [Suc i..<Suc n]" by (simp add: upt_conv_Cons)
  have stop: ?case if "snd (retry_loop rt url body headers (map int [i..<Suc n]) prev s) = ?s1"
    using that lt by (intro exI[of _ i]) (auto simp del: upt_Suc)
  show ?case
  proof (cases "retried rt ?req (trace s)")
    case False
    then have "snd (retry_loop rt url body headers (map int [i..<Suc n]) prev s) = ?s1"
      unfolding upt
      by (cases "outcome_at rt ?req (trace s)") (simp_all add: try_body_eq retried_def del: upt_Suc)
    then show ?thesis by (rule stop)
  next
    case True
    then obtain e where e: "outcome_at rt ?req (trace s) = Inl e" "caught e"
      by (auto simp: retried_def split: sum.splits)
    show ?thesis
    proof (cases "delay_accepted rt ?b i")
      case False
      then have "snd (retry_loop rt url body headers (map int [i..<Suc n]) prev s) = ?s1"
        unfolding upt using e lt Suc.prems(1)
        by (auto simp: try_body_eq time_sleep_def backoff_delay_def delay_accepted_def
            simp del: upt_Suc)
      then show ?thesis by (rule stop)
    next
      case ok: True
      have step: "retry_loop rt url body headers (map int [i..<Suc n]) prev s =
          retry_loop rt url body headers (map int [Suc i..<Suc n]) (Some e) ?s2"
        unfolding upt using e lt Suc.prems(1) delay_accepted_sleep[OF ok]
        by (simp add: try_body_eq del: upt_Suc)
      have "\<exists>k. Suc i \<le> k \<and> k \<le> n
         \<and> (\<forall>j. Suc i \<le> j \<and> j < k \<longrightarrow>
               retried rt ?req (trace ?s2 @ retry_events ?req ?b (Suc i) j))
         \<and> snd (retry_loop rt url body headers (map int [Suc i..<Suc n]) (Some e) ?s2) =
             ?s2\<lparr>trace := trace ?s2 @ retry_events ?req ?b (Suc i) k @ [Post ?req]\<rparr>"
        using Suc.hyps(1)[of "Suc i" ?s2 "Some e"] Suc.hyps(2) Suc.prems lt by (simp del: upt_Suc)
      then obtain k where k: "Suc i \<le> k" "k \<le> n"
        and before: "\<And>j. Suc i \<le> j \<Longrightarrow> j < k \<Longrightarrow>
               retried rt ?req (trace ?s2 @ retry_events ?req ?b (Suc i) j)"
        and res: "snd (retry_loop rt url body headers (map int [Suc i..<Suc n]) (Some e) ?s2) =
             ?s2\<lparr>trace := trace ?s2 @ retry_events ?req ?b (Suc i) k @ [Post ?req]\<rparr>"
        by blast
      have shift: "\<And>j. Suc i \<le> j \<Longrightarrow>
          trace ?s2 @ retry_events ?req ?b (Suc i) j = trace s @ retry_events ?req ?b i j"
        by (simp add: retry_events_first)
      have all: "\<forall>j. i \<le> j \<and> j < k \<longrightarrow> retried rt ?req (trace s @ retry_events ?req ?b i j)"
      proof (intro allI impI)
        fix j assume j: "i \<le> j \<and> j < k"
        show "retried rt ?req (trace s @ retry_events ?req ?b i j)"
        proof (cases "j = i")
          case True
          with \<open>retried rt ?req (trace s)\<close> show ?thesis by simp
        next
          case False
          with j have "Suc i \<le> j" by simp
          with before[of j] j shift[of j] show ?thesis by simp
        qed
      qed
      show ?thesis
        using k all res step shift[of k]
        by (intro exI[of _ k]) (simp del: upt_Suc)
    qed
  qed
qed

lemma retry_loop_fails_then:
  assumes "retries (self s) = int n" and "i \<le> k" and "k \<le> n"
    and "\<And>j. i \<le> j \<Longrightarrow> j < k \<Longrightarrow>
           retried rt (mk_request url body headers s)
             (trace s @ retry_events (mk_request url body headers s) (backoff_seconds (self s)) i j)"
    and "\<And>j. i \<le> j \<Longrightarrow> j < k \<Longrightarrow> delay_accepted rt (backoff_seconds (self s)) j"
    and "k < n \<Longrightarrow> \<not> retried rt (mk_request url body headers s)
             (trace s @ retry_events (mk_request url body headers s) (backoff_seconds (self s)) i k)"
  shows "retry_loop rt url body headers (map int [i..<Suc n]) prev s =
         (Exited (outcome_at rt (mk_request url body headers s)
             (trace s @ retry_events (mk_request url body headers s) (backoff_seconds (self s)) i k)),
          s\<lparr>trace := trace s @ retry_events (mk_request url body headers s) (backoff_seconds (self s)) i k
                 @ [Post (mk_request url body headers s)]\<rparr>)"
  using assms
proof (induction "k - i" arbitrary: i s prev)
  case 0
  let ?req = "mk_request url body headers s"
  from 0 have ik: "i = k" by simp
  from \<open>k \<le> n\<close> ik have upt: "[i..<Suc n] = i # [Suc i..<Suc n]" by (simp add: upt_conv_Cons)
  show ?case
  proof (cases "k < n")
    case True
    with "0.prems"(6) ik have "\<not> retried rt ?req (trace s)" by simp
    then show ?thesis
      unfolding upt using ik
      by (cases "outcome_at rt ?req (trace s)") (simp_all add: try_body_eq retried_def del: upt_Suc)
  next
    case False
    with \<open>k \<le> n\<close> have "k = n" by simp
    with ik "0.prems"(1) show ?thesis
      unfolding upt
      by (cases "outcome_at rt ?req (trace s)") (simp_all add: try_body_eq del: upt_Suc)
  qed
next
  case (Suc d)
  let ?req = "mk_request url body headers s"
  let ?b = "backoff_seconds (self s)"
  let ?s2 = "s\<lparr>trace := trace s @ [Post ?req, Sleep (?b * 2 ^ i)]\<rparr>"
  from Suc have lt: "i < k" by simp
  with \<open>k \<le> n\<close> have ltn: "i < n" by simp
  then have upt: "[i..<Suc n] = i # [Suc i..<Suc n]" by (simp add: upt_conv_Cons)
  from Suc.prems(4)[of i] lt have "retried rt ?req (trace s)" by simp
  then obtain e where e: "outcome_at rt ?req (trace s) = Inl e" "caught e"
    by (auto simp: retried_def split: sum.splits)
  from Suc.prems(5)[of i] lt have acc: "delay_accepted rt ?b i" by simp
  have step: "retry_loop rt url body headers (map int [i..<Suc n]) prev s =
      retry_loop rt url body headers (map int [Suc i..<Suc n]) (Some e) ?s2"
    unfolding upt using e ltn Suc.prems(1) delay_accepted_sleep[OF acc]
    by (simp add: try_body_eq del: upt_Suc)
  have shift: "\<And>j. Suc i \<le> j \<Longrightarrow>
      trace ?s2 @ retry_events ?req ?b (Suc i) j = trace s @ retry_events ?req ?b i j"
    by (simp add: retry_events_first)
  have ih: "retry_loop rt url body headers (map int [Suc i..<Suc n]) (Some e) ?s2 =
         (Exited (outcome_at rt (mk_request url body headers ?s2)
             (trace ?s2 @ retry_events (mk_request url body headers ?s2) (backoff_seconds (self ?s2)) (Suc i) k)),
          ?s2\<lparr>trace := trace ?s2 @ retry_events (mk_request url body headers ?s2) (backoff_seconds (self ?s2)) (Suc i) k
                 @ [Post (mk_request url body headers ?s2)]\<rparr>)"
    (is "_ = ?R'")
  proof (rule Suc.hyps(1))
    show "d = k - Suc i" using Suc.hyps(2) by simp
    show "retries (self ?s2) = int n" using Suc.prems(1) by simp
    show "Suc i \<le> k" using lt by simp
    show "k \<le> n" by fact
    show "retried rt (mk_request url body headers ?s2)
        (trace ?s2 @ retry_events (mk_request url body headers ?s2) (backoff_seconds (self ?s2)) (Suc i) j)"
      if "Suc i \<le> j" "j < k" for j
      using Suc.prems(4)[of j] that shift[of j] by simp
    show "delay_accepted rt (backoff_seconds (self ?s2)) j" if "Suc i \<le> j" "j < k" for j
      using Suc.prems(5)[of j] that by simp
    show "\<not> retried rt (mk_request url body headers ?s2)
        (trace ?s2 @ retry_events (mk_request url body headers ?s2) (backoff_seconds (self ?s2)) (Suc i) k)"
      if "k < n"
      using Suc.prems(6) that shift[of k] lt by simp
  qed
  note step
  also note ih
  also have "?R' = (Exited (outcome_at rt ?req (trace s @ retry_events ?req ?b i k)),
          s\<lparr>trace := trace s @ retry_events ?req ?b i k @ [Post ?req]\<rparr>)"
    by (simp add: retry_events_first[OF lt])
  finally show ?case .
qed

lemma mk_request_tool:
  "mk_request (base_url (self s) @ ''/api/tools/execute'')
     (JObj [(''tool_alias_name'', JStr tool),
            (''parameters'', py_or (case ps of None \<Rightarrow> JNull | Some p \<Rightarrow> JObj p) (JObj []))])
     [(''X-API-Key'', api_key (self s)), (''Content-Type'', ''application/json'')] s
   = tool_request tool ps s"
  by (simp add: mk_request_def tool_request_def)

lemma rstrip_decomp: "\<exists>k. s = rstrip s [c] @ replicate k c"
proof -
  have "rev s = takeWhile (\<lambda>x. x = c) (rev s) @ dropWhile (\<lambda>x. x = c) (rev s)" by simp
  moreover have "takeWhile (\<lambda>x. x = c) (rev s) = replicate (length (takeWhile (\<lambda>x. x = c) (rev s))) c"
    by (metis (mono_tags, lifting) replicate_length_same set_takeWhileD)
  ultimately have "rev s = replicate (length (takeWhile (\<lambda>x. x = c) (rev s))) c @ dropWhile (\<lambda>x. x = c) (rev s)"
    by simp
  then have "s = rev (dropWhile (\<lambda>x. x = c) (rev s)) @ replicate (length (takeWhile (\<lambda>x. x = c) (rev s))) c"
    by (metis rev_append rev_replicate rev_rev_ident)
  then show ?thesis by (auto simp: rstrip_def)
qed

lemma rstrip_no_trailing: "rstrip s [c] \<noteq> u @ [c]"
proof
  assume "rstrip s [c] = u @ [c]"
  then have "dropWhile (\<lambda>x. x = c) (rev s) = c # rev u"
    by (simp add: rstrip_def) (metis rev.simps(2) rev_swap)
  then show False
    by (metis (full_types) hd_dropWhile list.sel(1) list.distinct(1))
qed

lemma rstrip_unchanged: "(\<And>u. s \<noteq> u @ [c]) \<Longrightarrow> rstrip s [c] = s"
  by (cases s rule: rev_cases) (auto simp: rstrip_def)

lemma rstrip_single: "(\<And>v. u \<noteq> v @ [c]) \<Longrightarrow> rstrip (u @ [c]) [c] = u"
  by (cases u rule: rev_cases) (auto simp: rstrip_def)

lemma no_trailing: "last u \<noteq> c \<Longrightarrow> u \<noteq> v @ [c]"
  by auto

lemma py_range_Suc: "py_range (int n + 1) = map int [0..<Suc n]"
proof -
  have "nat (int n + 1) = Suc n" by simp
  then show ?thesis by (simp only: py_range_def)
qed

lemma caught_http [simp]: "caught (Exc DatagenHttpError a)"
  by (simp add: caught_def issubclass_def eval_nat_numeral)

lemma not_caught_auth [simp]: "\<not> caught (Exc DatagenAuthError a)"
  by (simp add: caught_def issubclass_def eval_nat_numeral)

lemma not_caught_tool [simp]: "\<not> caught (Exc DatagenToolError a)"
  by (simp add: caught_def issubclass_def eval_nat_numeral)

lemma str_int_500: "str_int 500 = ''500''"
  by (simp add: str_int_def digit_char_def)

lemma classify_500:
  "status_code resp = 500 \<Longrightarrow>
   classify rt resp = Inl (Exc DatagenHttpError (JStr (''HTTP 500: '' @ resp_text resp)))"
  by (simp add: classify_def str_int_500)

lemma classify_auth:
  "status_code resp = 401 \<or> status_code resp = 403 \<Longrightarrow>
   classify rt resp = Inl (Exc DatagenAuthError (JStr (''Auth failed: '' @ resp_text resp)))"
  by (auto simp: classify_def)

lemma classify_success:
  "status_code resp = 200 \<Longrightarrow> json_body resp = Some (success_envelope r) \<Longrightarrow>
   classify rt resp = Inr r"
  by (simp add: classify_def resp_json_def dict_get_def success_envelope_def)

lemma classify_tool_failure:
  "status_code resp = 200 \<Longrightarrow> json_body resp = Some (tool_failure_envelope x) \<Longrightarrow>
   classify rt resp =
     Inl (Exc DatagenToolError (JStr (if x = [] then ''Tool reported failure'' else x)))"
  by (simp add: classify_def resp_json_def dict_get_def tool_failure_envelope_def py_or_def)

lemma classify_shaped:
  assumes "envelope_shaped resp"
  shows "(\<exists>v. classify rt resp = Inr v)
       \<or> (\<exists>e. classify rt resp = Inl e
              \<and> (class_of e = DatagenAuthError \<or> class_of e = DatagenHttpError
                  \<or> class_of e = DatagenToolError))"
proof (cases "400 \<le> status_code resp")
  case True
  then show ?thesis by (simp add: classify_def)
next
  case False
  with assms obtain kvs where body: "json_body resp = Some (JObj kvs)"
    and data: "case map_of kvs ''data'' of None \<Rightarrow> True | Some d \<Rightarrow> is_dict d"
    by (auto simp: envelope_shaped_def split: option.splits json.splits)
  from False have st: "status_code resp \<noteq> 401" "status_code resp \<noteq> 403" "\<not> 400 \<le> status_code resp"
    by simp_all
  obtain d where d: "dict_get (JObj kvs) ''data'' (JObj []) = Inr (JObj d)"
    using data by (cases "map_of kvs ''data''"; cases "the (map_of kvs ''data'')")
      (auto simp: dict_get_def)
  show ?thesis
    using st body d
    by (simp add: classify_def resp_json_def)
      (simp add: dict_get_def)
qed

lemma execute_tool_loop:
  "tool \<noteq> [] \<Longrightarrow>
   execute_tool rt tool ps s =
     (case retry_loop rt (base_url (self s) @ ''/api/tools/execute'')
        (JObj [(''tool_alias_name'', JStr tool),
               (''parameters'', py_or (case ps of None \<Rightarrow> JNull | Some p \<Rightarrow> JObj p) (JObj []))])
        [(''X-API-Key'', api_key (self s)), (''Content-Type'', ''application/json'')]
        (py_range (retries (self s) + 1)) None s of
        (Exited r, s') \<Rightarrow> (r, s')
      | (Completed last_exc, s') \<Rightarrow> (after_loop last_exc, s'))"
  by (simp add: execute_tool_def)

lemma execute_tool_first:
  assumes "tool \<noteq> []" and "0 \<le> retries (self s)"
    and "\<not> retried rt (tool_request tool ps s) (trace s)"
  shows "execute_tool rt tool ps s =
     (outcome_at rt (tool_request tool ps s) (trace s),
      s\<lparr>trace := trace s @ [Post (tool_request tool ps s)]\<rparr>)"
proof -
  from assms(2) obtain n where n: "retries (self s) = int n"
    using nonneg_int_cases by blast
  have upt: "[0..<Suc n] = 0 # [Suc 0..<Suc n]" by (simp add: upt_conv_Cons)
  show ?thesis
    unfolding execute_tool_loop[OF assms(1)] n py_range_Suc upt
    using assms(3)
    by (cases "outcome_at rt (tool_request tool ps s) (trace s)")
      (simp_all add: try_body_eq mk_request_tool retried_def del: upt_Suc)
qed

lemma execute_tool_exits:
  assumes "0 \<le> retries (self s)"
  shows "\<exists>r. fst (retry_loop rt url body headers (py_range (retries (self s) + 1)) prev s) = Exited r"
proof -
  from assms obtain n where n: "retries (self s) = int n"
    using nonneg_int_cases by blast
  show ?thesis
    unfolding n py_range_Suc using retry_loop_exits[OF n, of 0] by blast
qed

lemma outcome_500:
  assumes "requests_post rt h q = Inr resp" and "status_code resp = 500"
  shows "outcome_at rt q h = Inl (Exc DatagenHttpError (JStr (''HTTP 500: '' @ resp_text resp)))"
    and "retried rt q h"
  using assms by (simp_all add: outcome_at_def retried_def classify_500)

lemma outcome_success:
  assumes "requests_post rt h q = Inr resp" and "status_code resp = 200"
    and "json_body resp = Some (success_envelope r)"
  shows "outcome_at rt q h = Inr r" and "\<not> retried rt q h"
  using assms by (simp_all add: outcome_at_def retried_def classify_success)

lemma fresh_test_client [simp]:
  "retries (self (fresh (test_client n b))) = n"
  "backoff_seconds (self (fresh (test_client n b))) = b"
  "trace (fresh (test_client n b)) = []"
  by (simp_all add: fresh_def test_client_def)

lemma mock_always_post [simp]: "requests_post (mock_always resp) h q = Inr resp"
  by (simp add: mock_always_def)

lemma mock_script_post:
  "requests_post (mock_script script) h q =
     (if count_posts h < length script then script ! count_posts h
      else Inl (Exc ConnectionError (JStr ''Connection refused'')))"
  by (simp add: mock_script_def)

lemma fresh_trace_update:
  "fresh c\<lparr>trace := t\<rparr> = \<lparr>self = c, trace = t\<rparr>"
  by (simp add: fresh_def)

lemma py_range_negative: "r < 0 \<Longrightarrow> py_range (r + 1) = []"
  by (simp add: py_range_def)

lemma execute_tool_negative_retries:
  "tool \<noteq> [] \<Longrightarrow> retries (self s) < 0 \<Longrightarrow>
   execute_tool rt tool ps s =
     (Inl (Exc DatagenError (JStr ''Unknown error during tool execution'')), s)"
  by (simp add: execute_tool_loop py_range_negative after_loop_def)

lemma outcome_shaped:
  assumes "\<forall>h q. \<exists>resp. requests_post rt h q = Inr resp \<and> envelope_shaped resp"
  shows "(\<exists>v. outcome_at rt q h = Inr v)
       \<or> (\<exists>e. outcome_at rt q h = Inl e
              \<and> (class_of e = DatagenAuthError \<or> class_of e = DatagenHttpError
                  \<or> class_of e = DatagenToolError))"
proof -
  from assms obtain resp where "requests_post rt h q = Inr resp" "envelope_shaped resp"
    by blast
  with classify_shaped[of resp rt] show ?thesis
    by (simp add: outcome_at_def)
qed

lemma datagen_subclasses:
  "issubclass DatagenAuthError DatagenError"
  "issubclass DatagenHttpError DatagenError"
  "issubclass DatagenToolError DatagenError"
  "issubclass DatagenError DatagenError"
  "\<not> issubclass ValueError DatagenError"
  "\<not> issubclass ConnectionError DatagenError"
  by (simp_all add: issubclass_def eval_nat_numeral)

lemma server_error_fields:
  "status_code server_error = 500" "resp_text server_error = ''Server Error''"
  by (simp_all add: server_error_def)

lemma caught_iff:
  "caught e \<longleftrightarrow> class_of e \<in> {RequestException, ConnectionError, Timeout, InvalidJSONError,
                         JSONDecodeError, DatagenHttpError}"
  by (cases e; cases "class_of e") (simp_all add: caught_def issubclass_def eval_nat_numeral)

lemma not_caught_attribute [simp]: "\<not> caught (Exc AttributeError a)"
  by (simp add: caught_iff)

lemma caught_decode [simp]: "caught (Exc JSONDecodeError a)"
  by (simp add: caught_iff)

lemma retried_iff: "retried rt req h = http_level_failure rt req h"
proof (cases "requests_post rt h req")
  case (Inl e)
  then show ?thesis
    by (simp add: retried_def outcome_at_def http_level_failure_def caught_iff)
next
  case (Inr resp)
  have "(case classify rt resp of Inl e \<Rightarrow> caught e | Inr v \<Rightarrow> False) =
      (status_code resp \<noteq> 401 \<and> status_code resp \<noteq> 403 \<and>
          (400 \<le> status_code resp \<or>
           (case json_body resp of
              None \<Rightarrow> True
            | Some payload \<Rightarrow>
                (case payload of
                   JObj kvs \<Rightarrow>
                     (case map_of kvs ''success'' of None \<Rightarrow> True | Some ok \<Rightarrow> \<not> truthy ok)
                 | _ \<Rightarrow> False))))"
  proof (cases "status_code resp = 401 \<or> status_code resp = 403 \<or> 400 \<le> status_code resp")
    case True
    then show ?thesis by (auto simp: classify_def)
  next
    case False
    then have st: "status_code resp \<noteq> 401" "status_code resp \<noteq> 403" "\<not> 400 \<le> status_code resp"
      by simp_all
    show ?thesis
    proof (cases "json_body resp")
      case None
      with st show ?thesis by (simp add: classify_def resp_json_def)
    next
      case (Some payload)
      show ?thesis
      proof (cases payload)
        case (JObj kvs)
        have inner: "(case (case dict_get d ''success'' (JBool False) of
                 Inl e \<Rightarrow> Inl e
               | Inr tool_ok \<Rightarrow>
                   if \<not> truthy tool_ok
                   then (case dict_get d ''error'' JNull of
                           Inl e \<Rightarrow> Inl e
                         | Inr err \<Rightarrow> Inl (Exc DatagenToolError (py_or err (JStr ''Tool reported failure''))))
                   else dict_get d ''result'' JNull) of
              Inl e \<Rightarrow> caught e | Inr v \<Rightarrow> False) = False" for d
          by (cases d) (simp_all add: dict_get_def)
        from st Some JObj show ?thesis
          by (cases "map_of kvs ''success''")
            (simp_all add: classify_def resp_json_def dict_get_def[of "JObj kvs"] inner)
      qed (use st Some in \<open>simp_all add: classify_def resp_json_def dict_get_def\<close>)
    qed
  qed
  with Inr show ?thesis
    by (simp add: retried_def outcome_at_def http_level_failure_def)
qed

lemma clock_below_float_max: "x \<le> 9223372036 \<Longrightarrow> x \<le> float_max"
proof -
  assume x: "x \<le> 9223372036"
  have a: "(2::real) ^ 971 \<le> 2 ^ 1023" by (rule power_increasing) simp_all
  have b: "(2::real) ^ 34 \<le> 2 ^ 1023" by (rule power_increasing) simp_all
  have c: "(2::real) ^ 1024 = 2 * 2 ^ 1023"
    using power_Suc[of "2::real" 1023] by simp
  have d: "(9223372036::real) \<le> 2 ^ 34" by simp
  from a b c d x show ?thesis by (simp add: float_max_def)
qed

lemma mock_delay_accepted:
  "delay_accepted (mock_always resp) b i = (i < 1024 \<and> 0 \<le> b * 2 ^ i \<and> b * 2 ^ i \<le> 9223372036)"
  "delay_accepted (mock_script script) b i = (i < 1024 \<and> 0 \<le> b * 2 ^ i \<and> b * 2 ^ i \<le> 9223372036)"
  using clock_below_float_max[of "b * 2 ^ i"]
  by (auto simp: delay_accepted_def mock_always_def mock_script_def)

lemma mock_sleep_max [simp]:
  "sleep_max (mock_always resp) = 9223372036" "sleep_max (mock_script script) = 9223372036"
  by (simp_all add: mock_always_def mock_script_def)

lemma execute_tool_trace:
  assumes "tool \<noteq> []" and "retries (self s) = int n"
  shows "\<exists>k. k \<le> n
     \<and> (\<forall>j. j < k \<longrightarrow> retried rt (tool_request tool ps s)
           (trace s @ retry_events (tool_request tool ps s) (backoff_seconds (self s)) 0 j))
     \<and> snd (execute_tool rt tool ps s) =
          s\<lparr>trace := trace s @ retry_events (tool_request tool ps s) (backoff_seconds (self s)) 0 k
                 @ [Post (tool_request tool ps s)]\<rparr>"
proof -
  let ?url = "base_url (self s) @ ''/api/tools/execute''"
  let ?body = "JObj [(''tool_alias_name'', JStr tool),
             (''parameters'', py_or (case ps of None \<Rightarrow> JNull | Some p \<Rightarrow> JObj p) (JObj []))]"
  let ?headers = "[(''X-API-Key'', api_key (self s)), (''Content-Type'', ''application/json'')]"
  let ?run = "retry_loop rt ?url ?body ?headers (map int [0..<Suc n]) None s"
  from retry_loop_exits[OF assms(2), of 0 rt ?url ?body ?headers None]
  obtain r where r: "fst ?run = Exited r" by auto
  have "snd (execute_tool rt tool ps s) = snd ?run"
    unfolding execute_tool_loop[OF assms(1)] assms(2) py_range_Suc
    using r by (cases ?run) simp
  with retry_loop_trace[OF assms(2), of 0 rt ?url ?body ?headers None]
  show ?thesis
    unfolding mk_request_tool by (auto simp del: upt_Suc)
qed

lemma execute_tool_fails_then:
  assumes "tool \<noteq> []" and "retries (self s) = int n" and "k \<le> n"
    and before: "\<And>j. j < k \<Longrightarrow> retried rt (tool_request tool ps s)
           (trace s @ retry_events (tool_request tool ps s) (backoff_seconds (self s)) 0 j)"
    and delays: "\<And>j. j < k \<Longrightarrow> delay_accepted rt (backoff_seconds (self s)) j"
    and at: "k < n \<Longrightarrow> \<not> retried rt (tool_request tool ps s)
           (trace s @ retry_events (tool_request tool ps s) (backoff_seconds (self s)) 0 k)"
  shows "execute_tool rt tool ps s =
         (outcome_at rt (tool_request tool ps s)
            (trace s @ retry_events (tool_request tool ps s) (backoff_seconds (self s)) 0 k),
          s\<lparr>trace := trace s @ retry_events (tool_request tool ps s) (backoff_seconds (self s)) 0 k
                 @ [Post (tool_request tool ps s)]\<rparr>)"
proof -
  let ?url = "base_url (self s) @ ''/api/tools/execute''"
  let ?body = "JObj [(''tool_alias_name'', JStr tool),
             (''parameters'', py_or (case ps of None \<Rightarrow> JNull | Some p \<Rightarrow> JObj p) (JObj []))]"
  let ?headers = "[(''X-API-Key'', api_key (self s)), (''Content-Type'', ''application/json'')]"
  have "retry_loop rt ?url ?body ?headers (map int [0..<Suc n]) None s =
         (Exited (outcome_at rt (mk_request ?url ?body ?headers s)
             (trace s @ retry_events (mk_request ?url ?body ?headers s) (backoff_seconds (self s)) 0 k)),
          s\<lparr>trace := trace s @ retry_events (mk_request ?url ?body ?headers s) (backoff_seconds (self s)) 0 k
                 @ [Post (mk_request ?url ?body ?headers s)]\<rparr>)"
    by (rule retry_loop_fails_then[OF assms(2) _ assms(3)])
      (use before delays at in \<open>simp_all add: mk_request_tool\<close>)
  then show ?thesis
    unfolding execute_tool_loop[OF assms(1)] assms(2) py_range_Suc mk_request_tool by simp
qed

lemma execute_tool_run:
  assumes "tool \<noteq> []" and "retries (self s) = int n"
    and "delays_accepted rt (backoff_seconds (self s)) n"
  shows "\<exists>k. k \<le> n
     \<and> (\<forall>j. j < k \<longrightarrow> retried rt (tool_request tool ps s)
           (trace s @ retry_events (tool_request tool ps s) (backoff_seconds (self s)) 0 j))
     \<and> (k < n \<longrightarrow> \<not> retried rt (tool_request tool ps s)
           (trace s @ retry_events (tool_request tool ps s) (backoff_seconds (self s)) 0 k))
     \<and> execute_tool rt tool ps s =
         (outcome_at rt (tool_request tool ps s)
            (trace s @ retry_events (tool_request tool ps s) (backoff_seconds (self s)) 0 k),
          s\<lparr>trace := trace s @ retry_events (tool_request tool ps s) (backoff_seconds (self s)) 0 k
                 @ [Post (tool_request tool ps s)]\<rparr>)"
proof -
  let ?P = "\<lambda>j. n \<le> j \<or> \<not> retried rt (tool_request tool ps s)
           (trace s @ retry_events (tool_request tool ps s) (backoff_seconds (self s)) 0 j)"
  define k where "k = (LEAST j. ?P j)"
  have Pn: "?P n" by simp
  have Pk: "?P k" unfolding k_def by (rule LeastI[of ?P, OF Pn])
  have kn: "k \<le> n" unfolding k_def by (rule Least_le[of ?P, OF Pn])
  have before: "\<not> ?P j" if "j < k" for j
    using that unfolding k_def by (rule not_less_Least)
  have res: "execute_tool rt tool ps s =
         (outcome_at rt (tool_request tool ps s)
            (trace s @ retry_events (tool_request tool ps s) (backoff_seconds (self s)) 0 k),
          s\<lparr>trace := trace s @ retry_events (tool_request tool ps s) (backoff_seconds (self s)) 0 k
                 @ [Post (tool_request tool ps s)]\<rparr>)"
  proof (rule execute_tool_fails_then[OF assms(1,2) kn])
    fix j assume "j < k"
    with before[of j] show "retried rt (tool_request tool ps s)
           (trace s @ retry_events (tool_request tool ps s) (backoff_seconds (self s)) 0 j)"
      by simp
    from \<open>j < k\<close> kn assms(3) show "delay_accepted rt (backoff_seconds (self s)) j"
      by (simp add: delays_accepted_iff)
  next
    assume "k < n"
    with Pk show "\<not> retried rt (tool_request tool ps s)
           (trace s @ retry_events (tool_request tool ps s) (backoff_seconds (self s)) 0 k)"
      by simp
  qed
  from kn before Pk res show ?thesis
    by (intro exI[of _ k]) auto
qed

lemma execute_tool_shaped:
  assumes "tool \<noteq> []" and "0 \<le> retries (self s)"
    and "delays_accepted rt (backoff_seconds (self s)) (nat (retries (self s)))"
    and "\<forall>h q. \<exists>resp. requests_post rt h q = Inr resp \<and> envelope_shaped resp"
  shows "(\<exists>v. fst (execute_tool rt tool ps s) = Inr v)
       \<or> (\<exists>e. fst (execute_tool rt tool ps s) = Inl e
              \<and> (class_of e = DatagenAuthError \<or> class_of e = DatagenHttpError
                  \<or> class_of e = DatagenToolError))"
proof -
  from assms(2) obtain n where n: "retries (self s) = int n"
    using nonneg_int_cases by blast
  with assms(3) have "delays_accepted rt (backoff_seconds (self s)) n" by simp
  from execute_tool_run[OF assms(1) n this, of ps]
  obtain h where "fst (execute_tool rt tool ps s) = outcome_at rt (tool_request tool ps s) h"
    by auto
  with outcome_shaped[OF assms(4), of "tool_request tool ps s" h] show ?thesis
    by simp
qed

lemma execute_tool_sleep_refused:
  assumes "tool \<noteq> []" and "0 < retries (self s)"
    and "retried rt (tool_request tool ps s) (trace s)"
    and "sleep_max rt < backoff_seconds (self s)"
  shows "execute_tool rt tool ps s =
     (Inl (Exc OverflowError (JStr ''timestamp too large to convert to C _PyTime_t'')),
      s\<lparr>trace := trace s @ [Post (tool_request tool ps s)]\<rparr>)"
proof -
  from assms(2) obtain n where n: "retries (self s) = int n"
    using nonneg_int_cases[of "retries (self s)"] by auto
  with assms(2) have pos: "0 < n" by simp
  have upt: "[0..<Suc n] = 0 # [Suc 0..<Suc n]" by (simp add: upt_conv_Cons)
  from assms(3) obtain e where e: "outcome_at rt (tool_request tool ps s) (trace s) = Inl e" "caught e"
    by (auto simp: retried_def split: sum.splits)
  show ?thesis
    unfolding execute_tool_loop[OF assms(1)] n py_range_Suc upt
    using e pos n assms(4)
    by (simp add: try_body_eq mk_request_tool backoff_delay_def time_sleep_def del: upt_Suc)
qed

lemma outcome_401:
  assumes "requests_post rt h q = Inr resp" and "status_code resp = 401"
  shows "\<not> http_level_failure rt q h"
  using assms by (simp add: http_level_failure_def)

lemma delays_3: "delays_accepted (mock_always resp) (1/100) 3"
  by (simp add: delays_accepted_def mock_delay_accepted numeral_3_eq_3)

lemma delays_2: "delays_accepted (mock_script script) (1/100) 2"
  by (simp add: delays_accepted_def mock_delay_accepted numeral_2_eq_2)

section \<open>Properties of construction\<close>

text \<open>
  Claim C3, as amended. Construction removes every trailing \<open>/\<close> of the endpoint, not
  only one: the stored address is the given one without its trailing run of \<open>/\<close> and
  does not end in \<open>/\<close>. In particular an address that does not end in \<open>/\<close> is stored
  unchanged, and one that ends in exactly one \<open>/\<close> loses exactly that character.
\<close>

theorem init_strips_every_trailing_slash:
  assumes "init os_getenv key url tmo rtr backoff = Inr c"
  shows "(\<exists>k. url = base_url c @ replicate k (CHR ''/''))
       \<and> (\<forall>u. base_url c \<noteq> u @ ''/'')
       \<and> ((\<forall>u. url \<noteq> u @ ''/'') \<longrightarrow> base_url c = url)
       \<and> (\<forall>u. url = u @ ''/'' \<and> (\<forall>v. u \<noteq> v @ ''/'') \<longrightarrow> base_url c = u)"
proof -
  from assms have b: "base_url c = rstrip url ''/''"
    by (auto simp: init_def split: option.splits if_splits)
  show ?thesis
    unfolding b
    using rstrip_decomp[of url "CHR ''/''"] rstrip_no_trailing[of url "CHR ''/''"]
      rstrip_unchanged[of url "CHR ''/''"] rstrip_single[of _ "CHR ''/''"]
    by blast
qed

theorem init_strips_every_trailing_slash_witness:
  "init Map.empty (Some ''test_key'') ''http://h:1/'' 30 0 (1/2) = Inr (test_client 0 (1/2)\<lparr>base_url := ''http://h:1''\<rparr>)
   \<and> base_url (test_client 0 (1/2)\<lparr>base_url := ''http://h:1''\<rparr>) = ''http://h:1''
   \<and> init Map.empty (Some ''test_key'') ''http://h:1'' 30 0 (1/2) = Inr (test_client 0 (1/2)\<lparr>base_url := ''http://h:1''\<rparr>)"
proof -
  have a: "init Map.empty (Some ''test_key'') ''http://h:1/'' 30 0 (1/2) = Inr (test_client 0 (1/2)\<lparr>base_url := ''http://h:1''\<rparr>)"
    by (simp add: init_def resolve_api_key_def rstrip_def test_client_def)
  have b: "init Map.empty (Some ''test_key'') ''http://h:1'' 30 0 (1/2) = Inr (test_client 0 (1/2)\<lparr>base_url := ''http://h:1''\<rparr>)"
    by (simp add: init_def resolve_api_key_def rstrip_def test_client_def)
  have n: "\<forall>v. ''http://h:1'' \<noteq> v @ ''/''"
    by (intro allI no_trailing) simp
  from init_strips_every_trailing_slash[OF a]
  have "''http://h:1/'' = ''http://h:1'' @ ''/'' \<and> (\<forall>v. ''http://h:1'' \<noteq> v @ ''/'')
      \<longrightarrow> base_url (test_client 0 (1/2)\<lparr>base_url := ''http://h:1''\<rparr>) = ''http://h:1''"
    by blast
  with n have "base_url (test_client 0 (1/2)\<lparr>base_url := ''http://h:1''\<rparr>) = ''http://h:1''"
    by simp
  with a b show ?thesis by blast
qed

text \<open>
  The claim as first stated (exactly one separator is stripped) fails on an address with
  two trailing separators: both are removed.
\<close>

theorem init_strips_two_slashes:
  "init Map.empty (Some ''test_key'') ''http://h:1//'' 30 0 (1/2) = Inr (test_client 0 (1/2)\<lparr>base_url := ''http://h:1''\<rparr>)
   \<and> rstrip ''http://h:1//'' ''/'' \<noteq> butlast ''http://h:1//''"
  by (simp add: init_def resolve_api_key_def rstrip_def test_client_def)

text \<open>
  Claim C10. An explicitly given empty credential does not count as given: construction
  falls back to the variable \<^verbatim>\<open>DATAGEN_API_KEY\<close> of the environment, succeeds with its
  value when that is set and not empty, and raises \<^verbatim>\<open>DatagenAuthError\<close> otherwise.
\<close>

theorem init_empty_api_key:
  "init os_getenv (Some []) url tmo rtr backoff =
     (case os_getenv ''DATAGEN_API_KEY'' of
        None \<Rightarrow> Inl (Exc DatagenAuthError (JStr ''API key missing. Set DATAGEN_API_KEY or pass api_key.''))
      | Some v \<Rightarrow>
          if v = [] then Inl (Exc DatagenAuthError (JStr ''API key missing. Set DATAGEN_API_KEY or pass api_key.''))
          else Inr \<lparr>api_key = v, base_url = rstrip url ''/'', timeout = tmo, retries = rtr,
                    backoff_seconds = backoff\<rparr>)"
  by (simp add: init_def resolve_api_key_def split: option.splits)

section \<open>Properties of execute_tool\<close>

text \<open>
  Claim C7. With an empty tool identifier, whatever the parameters, \<^verbatim>\<open>execute_tool\<close>
  raises \<^verbatim>\<open>ValueError\<close> and leaves the state as it was: no request is sent.
\<close>

theorem execute_tool_empty_name:
  "execute_tool rt [] ps s = (Inl (Exc ValueError (JStr ''tool_alias_name is required'')), s)
   \<and> count_posts (trace (snd (execute_tool rt [] ps s))) = count_posts (trace s)"
  by (simp add: execute_tool_def)

text \<open>
  Claim C9. A call of \<^verbatim>\<open>execute_tool\<close>, whether it returns or raises, leaves the client
  object with the credential, endpoint, timeout, retry count and backoff it had.
\<close>

theorem execute_tool_keeps_client: "self (snd (execute_tool rt tool ps s)) = self s"
proof (cases "tool = []")
  case True
  then show ?thesis by (simp add: execute_tool_def)
next
  case False
  obtain r s' where run: "retry_loop rt (base_url (self s) @ ''/api/tools/execute'')
     (JObj [(''tool_alias_name'', JStr tool),
            (''parameters'', py_or (case ps of None \<Rightarrow> JNull | Some p \<Rightarrow> JObj p) (JObj []))])
     [(''X-API-Key'', api_key (self s)), (''Content-Type'', ''application/json'')]
     (py_range (retries (self s) + 1)) None s = (r, s')"
    by (cases "retry_loop rt (base_url (self s) @ ''/api/tools/execute'')
     (JObj [(''tool_alias_name'', JStr tool),
            (''parameters'', py_or (case ps of None \<Rightarrow> JNull | Some p \<Rightarrow> JObj p) (JObj []))])
     [(''X-API-Key'', api_key (self s)), (''Content-Type'', ''application/json'')]
     (py_range (retries (self s) + 1)) None s")
  from retry_loop_self[of rt _ _ _ _ None s] run have "self s' = self s"
    by (metis snd_conv)
  with False run show ?thesis
    by (simp add: execute_tool_def split: loop_result.splits)
qed

text \<open>
  Claim C1, as amended. Let the tool identifier be non-empty and the retry count
  \<open>N \<ge> 0\<close>. Then \<^verbatim>\<open>execute_tool\<close> sends at least one and at most \<open>N + 1\<close> requests, and
  every attempt that is followed by another one was an HTTP-level failure of the backend;
  when the delays of the retry policy are ones that Python accepts, every HTTP-level
  failure of an attempt before the last allowed one is followed by another attempt.
  If every delay \<open>backoff * 2 ^ i\<close> with \<open>i < N\<close> is one that Python accepts and the
  backend answers every request with status 500, exactly \<open>N + 1\<close> requests are sent and
  \<^verbatim>\<open>DatagenHttpError\<close> with the message \<^verbatim>\<open>HTTP 500: ...\<close> is raised. If the backend answers
  the first \<open>k \<le> N\<close> requests with status 500 and the next one with the success envelope
  of a result, and the delays with \<open>i < k\<close> are accepted, that result is returned after
  \<open>k + 1\<close> requests.
\<close>

theorem execute_tool_retries:
  assumes "tool \<noteq> []" and "0 \<le> retries (self s)"
  shows "count_posts (trace s) + 1 \<le> count_posts (trace (snd (execute_tool rt tool ps s)))
     \<and> count_posts (trace (snd (execute_tool rt tool ps s)))
           \<le> count_posts (trace s) + nat (retries (self s)) + 1
     \<and> (\<forall>j. count_posts (trace s) + j + 1 < count_posts (trace (snd (execute_tool rt tool ps s)))
           \<longrightarrow> http_level_failure rt (tool_request tool ps s)
                 (trace s @ retry_events (tool_request tool ps s) (backoff_seconds (self s)) 0 j))
     \<and> (\<forall>j. delays_accepted rt (backoff_seconds (self s)) (nat (retries (self s)))
           \<and> j < nat (retries (self s))
           \<and> http_level_failure rt (tool_request tool ps s)
                 (trace s @ retry_events (tool_request tool ps s) (backoff_seconds (self s)) 0 j)
           \<longrightarrow> count_posts (trace (snd (execute_tool rt tool ps s)))
                 \<noteq> count_posts (trace s) + j + 1)
     \<and> (delays_accepted rt (backoff_seconds (self s)) (nat (retries (self s)))
          \<and> (\<forall>h q. \<exists>resp. requests_post rt h q = Inr resp \<and> status_code resp = 500) \<longrightarrow>
          (\<exists>resp::response. status_code resp = 500
             \<and> fst (execute_tool rt tool ps s)
                 = Inl (Exc DatagenHttpError (JStr (''HTTP 500: '' @ resp_text resp))))
          \<and> count_posts (trace (snd (execute_tool rt tool ps s)))
              = count_posts (trace s) + nat (retries (self s)) + 1)
     \<and> (\<forall>k r. k \<le> nat (retries (self s))
           \<and> delays_accepted rt (backoff_seconds (self s)) k
           \<and> (\<forall>h q. count_posts h < count_posts (trace s) + k \<longrightarrow>
                 (\<exists>resp. requests_post rt h q = Inr resp \<and> status_code resp = 500))
           \<and> (\<forall>h q. count_posts h = count_posts (trace s) + k \<longrightarrow>
                 (\<exists>resp. requests_post rt h q = Inr resp \<and> status_code resp = 200
                    \<and> json_body resp = Some (success_envelope r)))
          \<longrightarrow> fst (execute_tool rt tool ps s) = Inr r
              \<and> count_posts (trace (snd (execute_tool rt tool ps s)))
                  = count_posts (trace s) + k + 1)"
proof -
  let ?req = "tool_request tool ps s"
  let ?b = "backoff_seconds (self s)"
  let ?H = "\<lambda>j. trace s @ retry_events ?req ?b 0 j"
  from assms(2) obtain n where n: "retries (self s) = int n"
    using nonneg_int_cases by blast
  then have nn: "nat (retries (self s)) = n" by simp
  from execute_tool_trace[OF assms(1) n, of rt ps]
  obtain k0 where k0: "k0 \<le> n"
    and before0: "\<forall>j. j < k0 \<longrightarrow> retried rt ?req (?H j)"
    and res0: "snd (execute_tool rt tool ps s) = s\<lparr>trace := ?H k0 @ [Post ?req]\<rparr>"
    by auto
  have least: "count_posts (trace s) + 1 \<le> count_posts (trace (snd (execute_tool rt tool ps s)))"
    by (simp add: res0)
  have bound: "count_posts (trace (snd (execute_tool rt tool ps s)))
           \<le> count_posts (trace s) + nat (retries (self s)) + 1"
    using k0 by (simp add: res0 nn)
  have only: "\<forall>j. count_posts (trace s) + j + 1 < count_posts (trace (snd (execute_tool rt tool ps s)))
           \<longrightarrow> http_level_failure rt ?req (?H j)"
    using before0 by (simp add: res0 retried_iff)
  have retried_on: "count_posts (trace (snd (execute_tool rt tool ps s)))
                 \<noteq> count_posts (trace s) + j + 1"
    if hyp: "delays_accepted rt ?b (nat (retries (self s))) \<and> j < nat (retries (self s))
           \<and> http_level_failure rt ?req (?H j)" for j
  proof -
    from hyp have acc: "delays_accepted rt ?b n" and j: "j < n" and f: "retried rt ?req (?H j)"
      by (simp_all add: nn retried_iff)
    from execute_tool_run[OF assms(1) n acc, of ps]
    obtain k where "k < n \<longrightarrow> \<not> retried rt ?req (?H k)"
      and "execute_tool rt tool ps s = (outcome_at rt ?req (?H k), s\<lparr>trace := ?H k @ [Post ?req]\<rparr>)"
      by auto
    with j f show ?thesis by auto
  qed
  have always: "(\<exists>resp::response. status_code resp = 500
             \<and> fst (execute_tool rt tool ps s)
                 = Inl (Exc DatagenHttpError (JStr (''HTTP 500: '' @ resp_text resp))))
          \<and> count_posts (trace (snd (execute_tool rt tool ps s)))
              = count_posts (trace s) + nat (retries (self s)) + 1"
    if hyp: "delays_accepted rt ?b (nat (retries (self s)))
          \<and> (\<forall>h q. \<exists>resp. requests_post rt h q = Inr resp \<and> status_code resp = 500)"
  proof -
    from hyp have all: "\<forall>h q. \<exists>resp. requests_post rt h q = Inr resp \<and> status_code resp = 500"
      and acc: "\<And>j. j < n \<Longrightarrow> delay_accepted rt ?b j"
      by (simp_all add: nn delays_accepted_iff)
    have r: "retried rt ?req h" for h
      using all outcome_500(2) by blast
    have run: "execute_tool rt tool ps s =
         (outcome_at rt ?req (?H n), s\<lparr>trace := ?H n @ [Post ?req]\<rparr>)"
      using execute_tool_fails_then[OF assms(1) n, of n rt ps] r acc by simp
    from all obtain resp where resp: "requests_post rt (?H n) ?req = Inr resp" "status_code resp = 500"
      by blast
    have raised: "fst (execute_tool rt tool ps s)
        = Inl (Exc DatagenHttpError (JStr (''HTTP 500: '' @ resp_text resp)))"
      using outcome_500(1)[OF resp] run by simp
    have posts: "count_posts (trace (snd (execute_tool rt tool ps s)))
        = count_posts (trace s) + nat (retries (self s)) + 1"
      using run by (simp add: nn)
    show ?thesis
      by (intro conjI exI[of _ resp]) (rule resp(2) raised posts)+
  qed
  have later: "fst (execute_tool rt tool ps s) = Inr r
              \<and> count_posts (trace (snd (execute_tool rt tool ps s)))
                  = count_posts (trace s) + k + 1"
    if k: "k \<le> nat (retries (self s))"
      and acc: "delays_accepted rt ?b k"
      and fail: "\<forall>h q. count_posts h < count_posts (trace s) + k \<longrightarrow>
                 (\<exists>resp. requests_post rt h q = Inr resp \<and> status_code resp = 500)"
      and ok: "\<forall>h q. count_posts h = count_posts (trace s) + k \<longrightarrow>
                 (\<exists>resp. requests_post rt h q = Inr resp \<and> status_code resp = 200
                    \<and> json_body resp = Some (success_envelope r))"
    for k r
  proof -
    have c: "count_posts (?H j) = count_posts (trace s) + j" for j by simp
    have r: "retried rt ?req (?H j)" if "j < k" for j
    proof -
      from that c[of j] have "count_posts (?H j) < count_posts (trace s) + k" by simp
      with fail obtain resp where "requests_post rt (?H j) ?req = Inr resp" "status_code resp = 500"
        by blast
      then show ?thesis by (rule outcome_500(2))
    qed
    from ok c[of k] obtain resp where resp: "requests_post rt (?H k) ?req = Inr resp"
      "status_code resp = 200" "json_body resp = Some (success_envelope r)"
      by blast
    have run: "execute_tool rt tool ps s =
         (outcome_at rt ?req (?H k), s\<lparr>trace := ?H k @ [Post ?req]\<rparr>)"
      using execute_tool_fails_then[OF assms(1) n, of k rt ps] k nn r acc
        outcome_success(2)[OF resp]
      by (simp add: delays_accepted_iff)
    with outcome_success(1)[OF resp] show ?thesis by simp
  qed
  from least bound only retried_on always later show ?thesis by blast
qed

theorem execute_tool_retries_witness:
  "(\<exists>resp::response. status_code resp = 500
      \<and> fst (execute_tool (mock_always server_error) ''test_tool'' None (fresh (test_client 3 (1/100))))
          = Inl (Exc DatagenHttpError (JStr (''HTTP 500: '' @ resp_text resp))))
   \<and> count_posts (trace (snd (execute_tool (mock_always server_error) ''test_tool'' None
         (fresh (test_client 3 (1/100)))))) = 4
   \<and> fst (execute_tool
         (mock_script [Inr server_error, Inr server_error,
                       Inr (json_response (success_envelope (JObj [(''status'', JStr ''ok'')])))])
         ''test_tool'' None (fresh (test_client 2 (1/100))))
       = Inr (JObj [(''status'', JStr ''ok'')])
   \<and> count_posts (trace (snd (execute_tool
         (mock_script [Inr server_error, Inr server_error,
                       Inr (json_response (success_envelope (JObj [(''status'', JStr ''ok'')])))])
         ''test_tool'' None (fresh (test_client 2 (1/100)))))) = 3
   \<and> count_posts (trace (snd (execute_tool
         (mock_always \<lparr>status_code = 401, resp_text = ''Unauthorized'', json_body = None\<rparr>)
         ''test_tool'' None (fresh (test_client 3 (1/100)))))) = 1
   \<and> count_posts (trace (snd (execute_tool (mock_script []) ''test_tool'' None
         (fresh (test_client 1 (1/100)))))) = 2"
proof -
  let ?script = "[Inr server_error, Inr server_error,
                  Inr (json_response (success_envelope (JObj [(''status'', JStr ''ok'')])))]"
  let ?denied = "mock_always \<lparr>status_code = 401, resp_text = ''Unauthorized'', json_body = None\<rparr>"
  have always: "delays_accepted (mock_always server_error)
        (backoff_seconds (self (fresh (test_client 3 (1/100)))))
        (nat (retries (self (fresh (test_client 3 (1/100))))))
      \<and> (\<forall>h q. \<exists>resp. requests_post (mock_always server_error) h q = Inr resp
            \<and> status_code resp = 500)"
    by (simp add: server_error_fields delays_3)
  have fails: "\<forall>h q. count_posts h < count_posts (trace (fresh (test_client 2 (1/100)))) + 2 \<longrightarrow>
            (\<exists>resp. requests_post (mock_script ?script) h q = Inr resp \<and> status_code resp = 500)"
    by (auto simp: mock_script_post server_error_fields less_Suc_eq numeral_2_eq_2)
  have succeeds: "\<forall>h q. count_posts h = count_posts (trace (fresh (test_client 2 (1/100)))) + 2 \<longrightarrow>
            (\<exists>resp. requests_post (mock_script ?script) h q = Inr resp \<and> status_code resp = 200
               \<and> json_body resp = Some (success_envelope (JObj [(''status'', JStr ''ok'')])))"
    by (simp add: mock_script_post json_response_def)
  have script: "2 \<le> nat (retries (self (fresh (test_client 2 (1/100)))))
      \<and> delays_accepted (mock_script ?script) (backoff_seconds (self (fresh (test_client 2 (1/100))))) 2
      \<and> (\<forall>h q. count_posts h < count_posts (trace (fresh (test_client 2 (1/100)))) + 2 \<longrightarrow>
            (\<exists>resp. requests_post (mock_script ?script) h q = Inr resp \<and> status_code resp = 500))
      \<and> (\<forall>h q. count_posts h = count_posts (trace (fresh (test_client 2 (1/100)))) + 2 \<longrightarrow>
            (\<exists>resp. requests_post (mock_script ?script) h q = Inr resp \<and> status_code resp = 200
               \<and> json_body resp = Some (success_envelope (JObj [(''status'', JStr ''ok'')]))))"
  proof (intro conjI)
    show "2 \<le> nat (retries (self (fresh (test_client 2 (1/100)))))" by simp
    show "delays_accepted (mock_script ?script)
        (backoff_seconds (self (fresh (test_client 2 (1/100))))) 2"
      by (simp add: delays_2)
  qed (rule fails succeeds)+
  have h3: "''test_tool'' \<noteq> []" "0 \<le> retries (self (fresh (test_client 3 (1/100))))"
    by simp_all
  have h2: "''test_tool'' \<noteq> []" "0 \<le> retries (self (fresh (test_client 2 (1/100))))"
    by simp_all
  note all_fail = execute_tool_retries[OF h3, of "mock_always server_error" None,
      THEN conjunct2, THEN conjunct2, THEN conjunct2, THEN conjunct2, THEN conjunct1, THEN mp,
      OF always]
  have a: "(\<exists>resp::response. status_code resp = 500
      \<and> fst (execute_tool (mock_always server_error) ''test_tool'' None (fresh (test_client 3 (1/100))))
          = Inl (Exc DatagenHttpError (JStr (''HTTP 500: '' @ resp_text resp))))
   \<and> count_posts (trace (snd (execute_tool (mock_always server_error) ''test_tool'' None
         (fresh (test_client 3 (1/100)))))) = 4"
    using all_fail by simp
  note later = execute_tool_retries[OF h2, of "mock_script ?script" None,
      THEN conjunct2, THEN conjunct2, THEN conjunct2, THEN conjunct2, THEN conjunct2,
      THEN spec, THEN spec, THEN mp, OF script]
  have b: "fst (execute_tool (mock_script ?script) ''test_tool'' None (fresh (test_client 2 (1/100))))
       = Inr (JObj [(''status'', JStr ''ok'')])
   \<and> count_posts (trace (snd (execute_tool (mock_script ?script) ''test_tool'' None
         (fresh (test_client 2 (1/100)))))) = 3"
    using later by simp
  note denied = execute_tool_retries[OF h3, of ?denied None]
  have not_failure: "\<not> http_level_failure ?denied
      (tool_request ''test_tool'' None (fresh (test_client 3 (1/100))))
      (trace (fresh (test_client 3 (1/100)))
        @ retry_events (tool_request ''test_tool'' None (fresh (test_client 3 (1/100))))
            (backoff_seconds (self (fresh (test_client 3 (1/100))))) 0 0)"
    by (rule outcome_401[where resp = "\<lparr>status_code = 401, resp_text = ''Unauthorized'', json_body = None\<rparr>"])
      simp_all
  from denied[THEN conjunct1] denied[THEN conjunct2, THEN conjunct2, THEN conjunct1, THEN spec, of 0]
    not_failure
  have c: "count_posts (trace (snd (execute_tool ?denied ''test_tool'' None
         (fresh (test_client 3 (1/100)))))) = 1"
    by auto
  have h1: "''test_tool'' \<noteq> []" "0 \<le> retries (self (fresh (test_client 1 (1/100))))"
    by simp_all
  note refused = execute_tool_retries[OF h1, of "mock_script []" None]
  have failure: "delays_accepted (mock_script [])
        (backoff_seconds (self (fresh (test_client 1 (1/100)))))
        (nat (retries (self (fresh (test_client 1 (1/100))))))
      \<and> 0 < nat (retries (self (fresh (test_client 1 (1/100)))))
      \<and> http_level_failure (mock_script [])
        (tool_request ''test_tool'' None (fresh (test_client 1 (1/100))))
        (trace (fresh (test_client 1 (1/100)))
          @ retry_events (tool_request ''test_tool'' None (fresh (test_client 1 (1/100))))
              (backoff_seconds (self (fresh (test_client 1 (1/100))))) 0 0)"
    by (simp add: http_level_failure_def mock_script_post delays_accepted_def mock_delay_accepted)
  from refused[THEN conjunct1] refused[THEN conjunct2, THEN conjunct1]
    refused[THEN conjunct2, THEN conjunct2, THEN conjunct2, THEN conjunct1, THEN spec, THEN mp,
      OF failure]
  have d: "count_posts (trace (snd (execute_tool (mock_script []) ''test_tool'' None
         (fresh (test_client 1 (1/100)))))) = 2"
    by simp
  from a b c d show ?thesis by simp
qed

text \<open>
  The claim as first stated (for every retry count, whatever the backoff) fails when
  \<^verbatim>\<open>time.sleep\<close> refuses the delay: with one retry, a backoff of \<open>10 ^ 10\<close> seconds and
  a backend that always answers 500, the call ends after one request in the
  \<^verbatim>\<open>OverflowError\<close> of \<^verbatim>\<open>time.sleep\<close>.
\<close>

theorem execute_tool_retry_stopped_by_sleep:
  "execute_tool (mock_always server_error) ''test_tool'' None (fresh (test_client 1 10000000000))
     = (Inl (Exc OverflowError (JStr ''timestamp too large to convert to C _PyTime_t'')),
        \<lparr>self = test_client 1 10000000000,
         trace = [Post (tool_request ''test_tool'' None (fresh (test_client 1 10000000000)))]\<rparr>)
   \<and> count_posts (trace (snd (execute_tool (mock_always server_error) ''test_tool'' None
         (fresh (test_client 1 10000000000))))) = 1"
proof -
  have "retried (mock_always server_error)
      (tool_request ''test_tool'' None (fresh (test_client 1 10000000000)))
      (trace (fresh (test_client 1 10000000000)))"
    by (rule outcome_500(2)[where resp = server_error]) (simp_all add: server_error_fields)
  from execute_tool_sleep_refused[OF _ _ this]
  have "execute_tool (mock_always server_error) ''test_tool'' None (fresh (test_client 1 10000000000))
     = (Inl (Exc OverflowError (JStr ''timestamp too large to convert to C _PyTime_t'')),
        \<lparr>self = test_client 1 10000000000,
         trace = [Post (tool_request ''test_tool'' None (fresh (test_client 1 10000000000)))]\<rparr>)"
    by (simp add: fresh_trace_update)
  then show ?thesis by simp
qed

text \<open>
  Claim C4. When the backend answers the request with status 200 and the body
  \<^verbatim>\<open>{"success": true, "data": {"success": true, "result": R}}\<close>, \<^verbatim>\<open>execute_tool\<close> returns
  \<open>R\<close>, whatever value \<open>R\<close> is (the tool identifier is non-empty and the retry count
  is not negative, as every call that reaches the backend needs).
\<close>

theorem execute_tool_returns_result:
  assumes "tool \<noteq> []" and "0 \<le> retries (self s)"
    and "requests_post rt (trace s) (tool_request tool ps s) = Inr resp"
    and "status_code resp = 200"
    and "json_body resp = Some (success_envelope r)"
  shows "fst (execute_tool rt tool ps s) = Inr r"
proof -
  have out: "outcome_at rt (tool_request tool ps s) (trace s) = Inr r"
    using assms(3-5) by (simp add: outcome_at_def classify_success)
  then have "\<not> retried rt (tool_request tool ps s) (trace s)"
    by (simp add: retried_def)
  from execute_tool_first[OF assms(1,2) this] out show ?thesis by simp
qed

theorem execute_tool_returns_result_witness:
  "fst (execute_tool
         (mock_always \<lparr>status_code = 200, resp_text = '''',
                       json_body = Some (success_envelope (JArr [JObj [(''id'', JInt 1)]]))\<rparr>)
         ''test_tool'' None (fresh (test_client 0 (1/2))))
   = Inr (JArr [JObj [(''id'', JInt 1)]])"
  by (rule execute_tool_returns_result[where resp = "\<lparr>status_code = 200, resp_text = '''',
                       json_body = Some (success_envelope (JArr [JObj [(''id'', JInt 1)]]))\<rparr>"])
    (simp_all add: mock_always_def fresh_def test_client_def)

text \<open>
  Claim C2, as amended. Let the tool identifier be non-empty and the retry count not
  negative, whatever it is. A response with status 401 or 403 makes \<^verbatim>\<open>execute_tool\<close>
  raise \<^verbatim>\<open>DatagenAuthError\<close> after exactly one request. A response with status 200 and the
  body \<^verbatim>\<open>{"success": true, "data": {"success": false, "error": X}}\<close> makes it raise
  \<^verbatim>\<open>DatagenToolError\<close> after exactly one request; the error carries the message \<open>X\<close> when
  \<open>X\<close> is not empty and the message \<^verbatim>\<open>Tool reported failure\<close> when it is. Neither is
  retried: the trace grows by the one request and by no sleep.
\<close>

theorem execute_tool_auth_and_tool_errors:
  assumes "tool \<noteq> []" and "0 \<le> retries (self s)"
    and "requests_post rt (trace s) (tool_request tool ps s) = Inr resp"
  shows "(status_code resp = 401 \<or> status_code resp = 403 \<longrightarrow>
            execute_tool rt tool ps s =
              (Inl (Exc DatagenAuthError (JStr (''Auth failed: '' @ resp_text resp))),
               s\<lparr>trace := trace s @ [Post (tool_request tool ps s)]\<rparr>))
       \<and> (\<forall>x. status_code resp = 200 \<and> json_body resp = Some (tool_failure_envelope x) \<longrightarrow>
            execute_tool rt tool ps s =
              (Inl (Exc DatagenToolError (JStr (if x = [] then ''Tool reported failure'' else x))),
               s\<lparr>trace := trace s @ [Post (tool_request tool ps s)]\<rparr>))"
proof (intro conjI impI allI)
  assume st: "status_code resp = 401 \<or> status_code resp = 403"
  have out: "outcome_at rt (tool_request tool ps s) (trace s) =
      Inl (Exc DatagenAuthError (JStr (''Auth failed: '' @ resp_text resp)))"
    using assms(3) classify_auth[OF st] by (simp add: outcome_at_def)
  then have "\<not> retried rt (tool_request tool ps s) (trace s)"
    by (simp add: retried_def)
  from execute_tool_first[OF assms(1,2) this] out
  show "execute_tool rt tool ps s =
              (Inl (Exc DatagenAuthError (JStr (''Auth failed: '' @ resp_text resp))),
               s\<lparr>trace := trace s @ [Post (tool_request tool ps s)]\<rparr>)"
    by simp
next
  fix x
  assume b: "status_code resp = 200 \<and> json_body resp = Some (tool_failure_envelope x)"
  have out: "outcome_at rt (tool_request tool ps s) (trace s) =
      Inl (Exc DatagenToolError (JStr (if x = [] then ''Tool reported failure'' else x)))"
    using assms(3) b classify_tool_failure[of resp x rt] by (simp add: outcome_at_def)
  then have "\<not> retried rt (tool_request tool ps s) (trace s)"
    by (simp add: retried_def)
  from execute_tool_first[OF assms(1,2) this] out
  show "execute_tool rt tool ps s =
              (Inl (Exc DatagenToolError (JStr (if x = [] then ''Tool reported failure'' else x))),
               s\<lparr>trace := trace s @ [Post (tool_request tool ps s)]\<rparr>)"
    by simp
qed

theorem execute_tool_auth_and_tool_errors_witness:
  "execute_tool (mock_always \<lparr>status_code = 401, resp_text = ''Unauthorized'', json_body = None\<rparr>)
      ''test_tool'' None (fresh (test_client 3 (1/2)))
    = (Inl (Exc DatagenAuthError (JStr ''Auth failed: Unauthorized'')),
       \<lparr>self = test_client 3 (1/2),
        trace = [Post (tool_request ''test_tool'' None (fresh (test_client 3 (1/2))))]\<rparr>)
   \<and> execute_tool (mock_always (json_response (tool_failure_envelope ''X'')))
      ''test_tool'' None (fresh (test_client 3 (1/2)))
    = (Inl (Exc DatagenToolError (JStr ''X'')),
       \<lparr>self = test_client 3 (1/2),
        trace = [Post (tool_request ''test_tool'' None (fresh (test_client 3 (1/2))))]\<rparr>)"
proof -
  have h: "''test_tool'' \<noteq> []" "0 \<le> retries (self (fresh (test_client 3 (1/2))))"
    by simp_all
  have p1: "requests_post (mock_always \<lparr>status_code = 401, resp_text = ''Unauthorized'', json_body = None\<rparr>)
      (trace (fresh (test_client 3 (1/2)))) (tool_request ''test_tool'' None (fresh (test_client 3 (1/2))))
     = Inr \<lparr>status_code = 401, resp_text = ''Unauthorized'', json_body = None\<rparr>"
    by simp
  have p2: "requests_post (mock_always (json_response (tool_failure_envelope ''X'')))
      (trace (fresh (test_client 3 (1/2)))) (tool_request ''test_tool'' None (fresh (test_client 3 (1/2))))
     = Inr (json_response (tool_failure_envelope ''X''))"
    by simp
  from execute_tool_auth_and_tool_errors[OF h p1, THEN conjunct1]
  have a: "execute_tool (mock_always \<lparr>status_code = 401, resp_text = ''Unauthorized'', json_body = None\<rparr>)
      ''test_tool'' None (fresh (test_client 3 (1/2)))
    = (Inl (Exc DatagenAuthError (JStr ''Auth failed: Unauthorized'')),
       \<lparr>self = test_client 3 (1/2),
        trace = [Post (tool_request ''test_tool'' None (fresh (test_client 3 (1/2))))]\<rparr>)"
    by (simp add: fresh_trace_update)
  from execute_tool_auth_and_tool_errors[OF h p2, THEN conjunct2, THEN spec, of "''X''"]
  have b: "execute_tool (mock_always (json_response (tool_failure_envelope ''X'')))
      ''test_tool'' None (fresh (test_client 3 (1/2)))
    = (Inl (Exc DatagenToolError (JStr ''X'')),
       \<lparr>self = test_client 3 (1/2),
        trace = [Post (tool_request ''test_tool'' None (fresh (test_client 3 (1/2))))]\<rparr>)"
    by (simp add: fresh_trace_update json_response_def)
  from a b show ?thesis by (rule conjI)
qed

text \<open>
  The claim as first stated (the error carries the message \<open>X\<close> for every \<open>X\<close>) fails
  for the empty message: the error then carries \<^verbatim>\<open>Tool reported failure\<close>.
\<close>

theorem execute_tool_empty_tool_error_message:
  "fst (execute_tool (mock_always (json_response (tool_failure_envelope [])))
      ''test_tool'' None (fresh (test_client 3 (1/2))))
    = Inl (Exc DatagenToolError (JStr ''Tool reported failure''))
   \<and> fst (execute_tool (mock_always (json_response (tool_failure_envelope [])))
      ''test_tool'' None (fresh (test_client 3 (1/2))))
    \<noteq> Inl (Exc DatagenToolError (JStr []))"
proof -
  let ?rt = "mock_always (json_response (tool_failure_envelope []))"
  let ?s = "fresh (test_client 3 (1/2))"
  have out: "outcome_at ?rt (tool_request ''test_tool'' None ?s) (trace ?s)
      = Inl (Exc DatagenToolError (JStr ''Tool reported failure''))"
    using classify_tool_failure[of "json_response (tool_failure_envelope [])" "[]"]
    by (simp add: outcome_at_def json_response_def)
  then have "\<not> retried ?rt (tool_request ''test_tool'' None ?s) (trace ?s)"
    by (simp add: retried_def)
  from execute_tool_first[OF _ _ this] out
  have "fst (execute_tool ?rt ''test_tool'' None ?s)
      = Inl (Exc DatagenToolError (JStr ''Tool reported failure''))"
    by simp
  then show ?thesis by simp
qed

text \<open>
  Claim C5, as amended. Let the tool identifier be non-empty and the retry count
  \<open>N \<ge> 0\<close>, and let \<open>b\<close> be the backoff. The effects of a call are, for some \<open>k \<le> N\<close>,
  the \<open>k\<close> retried attempts, each a request followed by the sleep of \<open>b * 2 ^ i\<close> after
  attempt \<open>i\<close> (counted from 0), and then the last request with no sleep after it: no
  jitter, no cap. When every attempt is an HTTP-level failure and every delay
  \<open>b * 2 ^ i\<close> with \<open>i < N\<close> is one that Python accepts, \<open>k = N\<close>: the sleeps are
  \<open>b * 2 ^ 0, ..., b * 2 ^ (N - 1)\<close>.
\<close>

theorem execute_tool_backoff:
  assumes "tool \<noteq> []" and "0 \<le> retries (self s)"
  shows "(\<exists>k. k \<le> nat (retries (self s))
           \<and> trace (snd (execute_tool rt tool ps s))
               = trace s @ retry_events (tool_request tool ps s) (backoff_seconds (self s)) 0 k
                   @ [Post (tool_request tool ps s)]
           \<and> sleeps (trace (snd (execute_tool rt tool ps s)))
               = sleeps (trace s) @ map (\<lambda>i. backoff_seconds (self s) * 2 ^ i) [0..<k])
       \<and> (delays_accepted rt (backoff_seconds (self s)) (nat (retries (self s)))
           \<and> (\<forall>h. http_level_failure rt (tool_request tool ps s) h) \<longrightarrow>
             trace (snd (execute_tool rt tool ps s))
               = trace s @ retry_events (tool_request tool ps s) (backoff_seconds (self s)) 0
                     (nat (retries (self s)))
                   @ [Post (tool_request tool ps s)]
           \<and> sleeps (trace (snd (execute_tool rt tool ps s)))
               = sleeps (trace s)
                   @ map (\<lambda>i. backoff_seconds (self s) * 2 ^ i) [0..<nat (retries (self s))])"
proof -
  let ?req = "tool_request tool ps s"
  let ?b = "backoff_seconds (self s)"
  from assms(2) obtain n where n: "retries (self s) = int n"
    using nonneg_int_cases by blast
  then have nn: "nat (retries (self s)) = n" by simp
  from execute_tool_trace[OF assms(1) n, of rt ps]
  obtain k where k: "k \<le> n"
    and res: "snd (execute_tool rt tool ps s)
        = s\<lparr>trace := trace s @ retry_events ?req ?b 0 k @ [Post ?req]\<rparr>"
    by auto
  have general: "\<exists>k. k \<le> nat (retries (self s))
           \<and> trace (snd (execute_tool rt tool ps s)) = trace s @ retry_events ?req ?b 0 k @ [Post ?req]
           \<and> sleeps (trace (snd (execute_tool rt tool ps s)))
               = sleeps (trace s) @ map (\<lambda>i. ?b * 2 ^ i) [0..<k]"
    using k by (intro exI[of _ k]) (simp add: res nn)
  have failing: "trace (snd (execute_tool rt tool ps s))
               = trace s @ retry_events ?req ?b 0 (nat (retries (self s))) @ [Post ?req]
           \<and> sleeps (trace (snd (execute_tool rt tool ps s)))
               = sleeps (trace s) @ map (\<lambda>i. ?b * 2 ^ i) [0..<nat (retries (self s))]"
    if "delays_accepted rt ?b (nat (retries (self s))) \<and> (\<forall>h. http_level_failure rt ?req h)"
    using execute_tool_fails_then[OF assms(1) n, of n rt ps] that
    by (simp add: nn retried_iff delays_accepted_iff)
  from general failing show ?thesis by blast
qed

theorem execute_tool_backoff_witness:
  "trace (snd (execute_tool (mock_always server_error) ''test_tool'' None (fresh (test_client 2 (1/2)))))
     = [Post (tool_request ''test_tool'' None (fresh (test_client 2 (1/2)))), Sleep (1/2),
        Post (tool_request ''test_tool'' None (fresh (test_client 2 (1/2)))), Sleep 1,
        Post (tool_request ''test_tool'' None (fresh (test_client 2 (1/2))))]
   \<and> sleeps (trace (snd (execute_tool (mock_always server_error) ''test_tool'' None
        (fresh (test_client 2 (1/2)))))) = [1/2, 1]"
proof -
  have h: "''test_tool'' \<noteq> []" "0 \<le> retries (self (fresh (test_client 2 (1/2))))"
    by simp_all
  have d: "delays_accepted (mock_always server_error) (1/2) 2"
    by (simp add: delays_accepted_def mock_delay_accepted numeral_2_eq_2)
  have f: "\<forall>h. http_level_failure (mock_always server_error)
      (tool_request ''test_tool'' None (fresh (test_client 2 (1/2)))) h"
    by (simp add: http_level_failure_def server_error_fields)
  have r: "delays_accepted (mock_always server_error)
        (backoff_seconds (self (fresh (test_client 2 (1/2)))))
        (nat (retries (self (fresh (test_client 2 (1/2))))))
      \<and> (\<forall>h. http_level_failure (mock_always server_error)
            (tool_request ''test_tool'' None (fresh (test_client 2 (1/2)))) h)"
    using d f by simp
  from execute_tool_backoff[OF h, of "mock_always server_error" None, THEN conjunct2, THEN mp, OF r]
  show ?thesis
    by (simp add: retry_events_first upt_conv_Cons numeral_2_eq_2)
qed

text \<open>
  The claim as first stated (on repeated failure the sleeps are all of
  \<open>b * 2 ^ 0, ..., b * 2 ^ (N - 1)\<close>, whatever \<open>b\<close>) fails when \<^verbatim>\<open>time.sleep\<close> refuses a
  delay: with one retry and a backoff of \<open>10 ^ 10\<close> seconds nothing is slept.
\<close>

theorem execute_tool_no_sleep_beyond_clock:
  "sleeps (trace (snd (execute_tool (mock_always server_error) ''test_tool'' None
      (fresh (test_client 1 10000000000))))) = []
   \<and> sleeps (trace (snd (execute_tool (mock_always server_error) ''test_tool'' None
      (fresh (test_client 1 10000000000))))) \<noteq> [10000000000 * 2 ^ 0]"
proof -
  have "retried (mock_always server_error)
      (tool_request ''test_tool'' None (fresh (test_client 1 10000000000)))
      (trace (fresh (test_client 1 10000000000)))"
    by (rule outcome_500(2)[where resp = server_error]) (simp_all add: server_error_fields)
  from execute_tool_sleep_refused[OF _ _ this]
  have "execute_tool (mock_always server_error) ''test_tool'' None (fresh (test_client 1 10000000000))
     = (Inl (Exc OverflowError (JStr ''timestamp too large to convert to C _PyTime_t'')),
        \<lparr>self = test_client 1 10000000000,
         trace = [Post (tool_request ''test_tool'' None (fresh (test_client 1 10000000000)))]\<rparr>)"
    by (simp add: fresh_trace_update)
  then show ?thesis by simp
qed

text \<open>
  Claim C8. The claim says that every execution with a retry count that is not negative
  returns the inner result or raises one of the four typed errors. The code does not
  keep to it when the transport fails: with no retry and a backend that refuses the
  connection, \<^verbatim>\<open>execute_tool\<close> raises the \<^verbatim>\<open>ConnectionError\<close> of the \<^verbatim>\<open>requests\<close> library as
  it is, which is none of the four and not a \<^verbatim>\<open>DatagenError\<close>, although the docstring of
  \<^verbatim>\<open>DatagenHttpError\<close> counts network errors among the errors of that class.
\<close>

theorem execute_tool_raises_connection_error:
  "fst (execute_tool (mock_script []) ''test_tool'' None (fresh (test_client 0 (1/2))))
     = Inl (Exc ConnectionError (JStr ''Connection refused''))
   \<and> ConnectionError \<notin> {DatagenAuthError, ValueError, DatagenHttpError, DatagenToolError}
   \<and> \<not> issubclass ConnectionError DatagenError"
proof -
  have "execute_tool (mock_script []) ''test_tool'' None (fresh (test_client 0 (1/2)))
     = (outcome_at (mock_script []) (tool_request ''test_tool'' None (fresh (test_client 0 (1/2))))
          (trace (fresh (test_client 0 (1/2)))
            @ retry_events (tool_request ''test_tool'' None (fresh (test_client 0 (1/2))))
                (backoff_seconds (self (fresh (test_client 0 (1/2))))) 0 0),
        fresh (test_client 0 (1/2))
          \<lparr>trace := trace (fresh (test_client 0 (1/2)))
            @ retry_events (tool_request ''test_tool'' None (fresh (test_client 0 (1/2))))
                (backoff_seconds (self (fresh (test_client 0 (1/2))))) 0 0
            @ [Post (tool_request ''test_tool'' None (fresh (test_client 0 (1/2))))]\<rparr>)"
    by (rule execute_tool_fails_then[where n = 0]) simp_all
  then show ?thesis
    by (simp add: outcome_at_def mock_script_post datagen_subclasses)
qed

text \<open>
  Claim C6, as amended. \<^verbatim>\<open>DatagenAuthError\<close>, \<^verbatim>\<open>DatagenHttpError\<close>, \<^verbatim>\<open>DatagenToolError\<close> and
  the generic \<^verbatim>\<open>DatagenError\<close> derive from \<^verbatim>\<open>DatagenError\<close>, and every error of
  construction does. The error for an empty tool identifier is Python's \<^verbatim>\<open>ValueError\<close>,
  which does not derive from \<^verbatim>\<open>DatagenError\<close>. For a non-empty tool identifier, when
  every request is answered by a response that follows the wire contract and every
  delay of the retry policy is one that Python accepts, every error of \<^verbatim>\<open>execute_tool\<close>
  derives from \<^verbatim>\<open>DatagenError\<close>.
\<close>

theorem sdk_errors_derive_from_DatagenError:
  "issubclass DatagenAuthError DatagenError
   \<and> issubclass DatagenHttpError DatagenError
   \<and> issubclass DatagenToolError DatagenError
   \<and> issubclass DatagenError DatagenError
   \<and> \<not> issubclass ValueError DatagenError
   \<and> (\<forall>e. init os_getenv key url tmo rtr backoff = Inl e \<longrightarrow> issubclass (class_of e) DatagenError)
   \<and> (\<forall>e. tool \<noteq> []
          \<and> delays_accepted rt (backoff_seconds (self s)) (nat (retries (self s)))
          \<and> (\<forall>h q. \<exists>resp. requests_post rt h q = Inr resp \<and> envelope_shaped resp)
          \<and> fst (execute_tool rt tool ps s) = Inl e
        \<longrightarrow> issubclass (class_of e) DatagenError)
   \<and> fst (execute_tool rt [] ps s) = Inl (Exc ValueError (JStr ''tool_alias_name is required''))"
proof -
  have construction: "issubclass (class_of e) DatagenError"
    if "init os_getenv key url tmo rtr backoff = Inl e" for e
    using that
    by (auto simp: init_def datagen_subclasses split: option.splits if_splits)
  have call: "issubclass (class_of e) DatagenError"
    if a: "tool \<noteq> []
          \<and> delays_accepted rt (backoff_seconds (self s)) (nat (retries (self s)))
          \<and> (\<forall>h q. \<exists>resp. requests_post rt h q = Inr resp \<and> envelope_shaped resp)
          \<and> fst (execute_tool rt tool ps s) = Inl e" for e
  proof (cases "0 \<le> retries (self s)")
    case True
    from a have "tool \<noteq> []"
      "delays_accepted rt (backoff_seconds (self s)) (nat (retries (self s)))"
      "\<forall>h q. \<exists>resp. requests_post rt h q = Inr resp \<and> envelope_shaped resp"
      by simp_all
    from execute_tool_shaped[OF this(1) True this(2,3), of ps] a
    have "class_of e = DatagenAuthError \<or> class_of e = DatagenHttpError
        \<or> class_of e = DatagenToolError"
      by auto
    then show ?thesis by (auto simp: datagen_subclasses)
  next
    case False
    then have "retries (self s) < 0" by simp
    with a execute_tool_negative_retries[of tool s rt ps]
    have "e = Exc DatagenError (JStr ''Unknown error during tool execution'')"
      by simp
    then show ?thesis by (simp add: datagen_subclasses)
  qed
  have empty: "fst (execute_tool rt [] ps s)
      = Inl (Exc ValueError (JStr ''tool_alias_name is required''))"
    by (simp add: execute_tool_def)
  from construction call empty show ?thesis
    by (simp add: datagen_subclasses)
qed

theorem sdk_errors_derive_from_DatagenError_witness:
  "issubclass (class_of (Exc DatagenAuthError
       (JStr ''API key missing. Set DATAGEN_API_KEY or pass api_key.''))) DatagenError
   \<and> issubclass (class_of (Exc DatagenHttpError (JStr ''HTTP 500: Server Error''))) DatagenError"
proof -
  let ?s = "fresh (test_client 1 (1/2))"
  note t = sdk_errors_derive_from_DatagenError[of Map.empty None "''http://localhost:3001''" 30 0 "1/2"
      "''test_tool''" "mock_always server_error" ?s None]
  have i: "init Map.empty None ''http://localhost:3001'' 30 0 (1/2)
      = Inl (Exc DatagenAuthError (JStr ''API key missing. Set DATAGEN_API_KEY or pass api_key.''))"
    by (simp add: init_def resolve_api_key_def)
  have d: "delays_accepted (mock_always server_error) (1/2) (Suc 0)"
    by (simp add: delays_accepted_def mock_delay_accepted)
  have r: "retried (mock_always server_error) (tool_request ''test_tool'' None ?s) h" for h
    by (rule outcome_500(2)[where resp = server_error]) (simp_all add: server_error_fields)
  have run: "execute_tool (mock_always server_error) ''test_tool'' None ?s
     = (outcome_at (mock_always server_error) (tool_request ''test_tool'' None ?s)
          (trace ?s @ retry_events (tool_request ''test_tool'' None ?s) (backoff_seconds (self ?s)) 0 1),
        ?s\<lparr>trace := trace ?s
            @ retry_events (tool_request ''test_tool'' None ?s) (backoff_seconds (self ?s)) 0 1
            @ [Post (tool_request ''test_tool'' None ?s)]\<rparr>)"
    by (rule execute_tool_fails_then[where n = 1])
      (simp_all add: r mock_delay_accepted)
  have x: "''test_tool'' \<noteq> []
      \<and> delays_accepted (mock_always server_error) (backoff_seconds (self ?s)) (nat (retries (self ?s)))
      \<and> (\<forall>h q. \<exists>resp. requests_post (mock_always server_error) h q = Inr resp
            \<and> envelope_shaped resp)
      \<and> fst (execute_tool (mock_always server_error) ''test_tool'' None ?s)
          = Inl (Exc DatagenHttpError (JStr ''HTTP 500: Server Error''))"
    by (simp add: run outcome_at_def classify_500 envelope_shaped_def server_error_fields d)
  note c = t[THEN conjunct2, THEN conjunct2, THEN conjunct2, THEN conjunct2, THEN conjunct2,
      THEN conjunct1, THEN spec, THEN mp, OF i]
  note e = t[THEN conjunct2, THEN conjunct2, THEN conjunct2, THEN conjunct2, THEN conjunct2,
      THEN conjunct2, THEN conjunct1, THEN spec, THEN mp, OF x]
  from c e show ?thesis by (intro conjI)
qed

text \<open>
  The claim as first stated (the Invalid-Argument error derives from the base class of
  the SDK too) fails: the error for an empty tool identifier is a \<^verbatim>\<open>ValueError\<close>.
\<close>

theorem invalid_argument_is_not_a_DatagenError:
  "fst (execute_tool (mock_always server_error) [] None (fresh (test_client 0 (1/2))))
     = Inl (Exc ValueError (JStr ''tool_alias_name is required''))
   \<and> \<not> issubclass ValueError DatagenError"
  by (simp add: execute_tool_def datagen_subclasses)

end
